theory Spec2Isabelle
  imports Complex_Main
begin

section \<open>JavaScript primitives used by the catalog service\<close>

text \<open>
  Strings are lists of code units below 256. A JavaScript number that holds an integer
  is an \<open>int\<close>; \<open>NaN\<close> is \<open>None\<close>. A number is a double: an integer of magnitude up
  to \<open>2 ^ 53\<close> is held exactly, a larger one is rounded to 53 significant bits, a tie
  going to the even neighbour. \<open>toDouble\<close> is that rounding; it is applied wherever the
  source parses, adds, subtracts or multiplies. Beyond the largest finite double (strings
  of more than 308 digits) the source has \<open>Infinity\<close>, which the model does not hold:
  it keeps the rounded integer there.
\<close>

fun bitLength :: "nat \<Rightarrow> nat" where
  "bitLength n = (if n = 0 then 0 else Suc (bitLength (n div 2)))"

declare bitLength.simps [simp del]

definition toDouble :: "int \<Rightarrow> int" where
  "toDouble n =
     (let m = nat \<bar>n\<bar> in
      if m \<le> 9007199254740992 then n
      else (let e = bitLength m - 53;
                q = m div 2 ^ e;
                r = m mod 2 ^ e;
                h = 2 ^ (e - 1);
                q' = (if h < r \<or> (r = h \<and> odd q) then q + 1 else q)
            in if n < 0 then - int (q' * 2 ^ e) else int (q' * 2 ^ e)))"

definition isWhiteSpace :: "char \<Rightarrow> bool" where
  "isWhiteSpace c =
     (c \<in> set [CHR 0x09, CHR 0x0A, CHR 0x0B, CHR 0x0C, CHR 0x0D, CHR '' '', CHR 0xA0])"

definition isDecimalDigit :: "char \<Rightarrow> bool" where
  "isDecimalDigit c = (48 \<le> (of_char c :: nat) \<and> (of_char c :: nat) \<le> 57)"

definition hexDigitValue :: "char \<Rightarrow> nat option" where
  "hexDigitValue c =
     (let n = (of_char c :: nat) in
      if 48 \<le> n \<and> n \<le> 57 then Some (n - 48)
      else if 65 \<le> n \<and> n \<le> 70 then Some (n - 55)
      else if 97 \<le> n \<and> n \<le> 102 then Some (n - 87)
      else None)"

definition isHexDigit :: "char \<Rightarrow> bool" where
  "isHexDigit c = (hexDigitValue c \<noteq> None)"

definition digitsValue :: "nat \<Rightarrow> string \<Rightarrow> nat" where
  "digitsValue radix ds =
     foldl (\<lambda>acc c. acc * radix + (case hexDigitValue c of Some d \<Rightarrow> d | None \<Rightarrow> 0)) 0 ds"

text \<open>
  The sign step of \<open>parseInt\<close>: a leading \<open>-\<close> makes the result negative, a leading
  \<open>+\<close> or \<open>-\<close> is removed.
\<close>

definition splitSign :: "string \<Rightarrow> bool \<times> string" where
  "splitSign s =
     (case s of
        [] \<Rightarrow> (False, [])
      | c # r \<Rightarrow> if c = CHR ''-'' then (True, r)
                 else if c = CHR ''+'' then (False, r)
                 else (False, s))"

definition signed :: "bool \<Rightarrow> nat \<Rightarrow> int" where
  "signed neg n = (if neg then - int n else int n)"

text \<open>\<open>parseInt(s, 10)\<close>: leading white space, a sign, then the longest run of digits.\<close>

definition parseInt10 :: "string \<Rightarrow> int option" where
  "parseInt10 s =
     (let (neg, r) = splitSign (dropWhile isWhiteSpace s);
          z = takeWhile isDecimalDigit r
      in if z = [] then None else Some (toDouble (signed neg (digitsValue 10 z))))"

text \<open>
  \<open>parseInt(s)\<close> with no radix: as above, but a \<open>0x\<close> or \<open>0X\<close> prefix after the sign
  switches to base 16.
\<close>

definition parseInt :: "string \<Rightarrow> int option" where
  "parseInt s =
     (let (neg, r) = splitSign (dropWhile isWhiteSpace s) in
      if take 2 r = ''0x'' \<or> take 2 r = ''0X'' then
        (let z = takeWhile isHexDigit (drop 2 r)
         in if z = [] then None else Some (toDouble (signed neg (digitsValue 16 z))))
      else
        (let z = takeWhile isDecimalDigit r
         in if z = [] then None else Some (toDouble (signed neg (digitsValue 10 z)))))"

text \<open>\<open>n || d\<close> on numbers: \<open>NaN\<close> and \<open>0\<close> are falsy.\<close>

definition orDefault :: "int option \<Rightarrow> int \<Rightarrow> int" where
  "orDefault n d = (case n of None \<Rightarrow> d | Some v \<Rightarrow> if v = 0 then d else v)"

section \<open>Pagination and sort parameters\<close>

subsection \<open>In the list handler \<open>getAllVideos\<close>\<close>

text \<open>
  \<open>page = 1\<close> and \<open>limit = 10\<close> are destructuring defaults: they apply when the
  parameter is absent. Then
  \<^verbatim>\<open>pageNumber = parseInt(page, 10) || 1\<close>,
  \<^verbatim>\<open>pageSize = Math.min(parseInt(limit, 10) || 10, 50)\<close>,
  \<^verbatim>\<open>skip = (pageNumber - 1) * pageSize\<close>.
\<close>

definition pageNumber :: "string option \<Rightarrow> int" where
  "pageNumber page = (case page of None \<Rightarrow> 1 | Some s \<Rightarrow> orDefault (parseInt10 s) 1)"

definition pageSize :: "string option \<Rightarrow> int" where
  "pageSize limit =
     min (case limit of None \<Rightarrow> 10 | Some s \<Rightarrow> orDefault (parseInt10 s) 10) 50"

definition skip :: "string option \<Rightarrow> string option \<Rightarrow> int" where
  "skip page limit = toDouble (toDouble (pageNumber page - 1) * pageSize limit)"

text \<open>
  \<^verbatim>\<open>sortOptions[sortBy] = sortOrder === 'desc' ? -1 : 1\<close>, with the destructuring
  defaults \<open>createdAt\<close> and \<open>desc\<close>.
\<close>

definition sortOptions :: "string option \<Rightarrow> string option \<Rightarrow> string \<times> int" where
  "sortOptions sortBy sortOrder =
     (case sortBy of None \<Rightarrow> ''createdAt'' | Some f \<Rightarrow> f,
      if (case sortOrder of None \<Rightarrow> ''desc'' | Some s \<Rightarrow> s) = ''desc'' then - 1 else 1)"

subsection \<open>In the validators module\<close>

text \<open>
  \<open>validatePagination\<close> and \<open>validateSort\<close> are the clamping helpers of the validators
  module. The list handler does not call them.
\<close>

definition parseParam :: "string option \<Rightarrow> int option" where
  "parseParam p = (case p of None \<Rightarrow> None | Some s \<Rightarrow> parseInt s)"

definition validatePagination :: "string option \<Rightarrow> string option \<Rightarrow> int \<times> int" where
  "validatePagination page limit =
     (max 1 (orDefault (parseParam page) 1),
      min 50 (max 1 (orDefault (parseParam limit) 10)))"

definition defaultAllowedFields :: "string list" where
  "defaultAllowedFields = [''createdAt'', ''updatedAt'', ''title'', ''views'']"

definition validateSort :: "string option \<Rightarrow> string option \<Rightarrow> string list \<Rightarrow> string \<times> string" where
  "validateSort sortBy sortOrder allowedFields =
     (case sortBy of
        None \<Rightarrow> ''createdAt''
      | Some f \<Rightarrow> if f \<in> set allowedFields then f else ''createdAt'',
      case sortOrder of
        None \<Rightarrow> ''desc''
      | Some s \<Rightarrow> if s \<in> set [''asc'', ''desc''] then s else ''desc'')"

section \<open>The catalog store\<close>

text \<open>
  A catalog entry, with the fields of the schema that the modelled operations read or
  write (\<open>_id\<close>, \<open>type\<close> and \<open>chapter\<close> are renamed). \<open>subject\<close>, \<open>grade\<close> and the video fields
  are optional in the schema. The timestamps \<open>createdAt\<close> and \<open>updatedAt\<close> are
  maintained by the store, in milliseconds.
\<close>

record video =
  doc_id :: string
  title :: string
  description :: string
  bookTitle :: string
  chapterName :: string
  vtype :: string
  youtubeUrl :: "string option"
  youtubeVideoId :: "string option"
  thumbnailUrl :: "string option"
  views :: int
  likes :: int
  isActive :: bool
  tags :: "string list"
  difficulty :: string
  subject :: "string option"
  grade :: "string option"
  createdAt :: int
  updatedAt :: int

type_synonym store = "video list"

text \<open>
  The regular-expression engine is a collaborator: \<open>new RegExp(p, 'i')\<close> either throws
  (\<open>None\<close>) or gives a test on strings. The same holds for the cast of a request id to
  the store's id type.
\<close>

type_synonym regexp = "string \<Rightarrow> bool"

record engine =
  newRegExp :: "string \<Rightarrow> regexp option"
  castObjectId :: "string \<Rightarrow> bool"

subsection \<open>Filters\<close>

datatype cond =
    IsActive bool
  | TitleRx regexp
  | DescriptionRx regexp
  | BookTitleRx regexp
  | ChapterRx regexp
  | TypeEq string
  | SubjectRx regexp
  | GradeEq string
  | DifficultyEq string
  | TagsInRx regexp

datatype clause = Where cond | Or "cond list"

fun holds :: "cond \<Rightarrow> video \<Rightarrow> bool" where
  "holds (IsActive b) v = (isActive v = b)"
| "holds (TitleRx r) v = r (title v)"
| "holds (DescriptionRx r) v = r (description v)"
| "holds (BookTitleRx r) v = r (bookTitle v)"
| "holds (ChapterRx r) v = r (chapterName v)"
| "holds (TypeEq t) v = (vtype v = t)"
| "holds (SubjectRx r) v = (case subject v of None \<Rightarrow> False | Some s \<Rightarrow> r s)"
| "holds (GradeEq g) v = (grade v = Some g)"
| "holds (DifficultyEq d) v = (difficulty v = d)"
| "holds (TagsInRx r) v = list_ex r (tags v)"

fun satisfies :: "clause \<Rightarrow> video \<Rightarrow> bool" where
  "satisfies (Where c) v = holds c v"
| "satisfies (Or cs) v = list_ex (\<lambda>c. holds c v) cs"

definition matches :: "clause list \<Rightarrow> video \<Rightarrow> bool" where
  "matches q v = list_all (\<lambda>c. satisfies c v) q"

subsection \<open>Store operations\<close>

definition find_docs :: "clause list \<Rightarrow> store \<Rightarrow> video list" where
  "find_docs q s = filter (matches q) s"

definition countDocuments :: "clause list \<Rightarrow> store \<Rightarrow> int" where
  "countDocuments q s = int (length (filter (matches q) s))"

text \<open>
  Sorting compares the values of one field. Values of different kinds are ordered by
  kind, strings by code unit. A field the model does not hold reads as null. Entries
  that compare equal keep their store order.
\<close>

datatype bson = BNull | BNum int | BStr string | BBool bool | BDate int

fun fieldValue :: "string \<Rightarrow> video \<Rightarrow> bson" where
  "fieldValue f v =
     (if f = ''_id'' then BStr (doc_id v)
      else if f = ''title'' then BStr (title v)
      else if f = ''description'' then BStr (description v)
      else if f = ''bookTitle'' then BStr (bookTitle v)
      else if f = ''chapter'' then BStr (chapterName v)
      else if f = ''type'' then BStr (vtype v)
      else if f = ''youtubeUrl'' then (case youtubeUrl v of None \<Rightarrow> BNull | Some u \<Rightarrow> BStr u)
      else if f = ''youtubeVideoId'' then
        (case youtubeVideoId v of None \<Rightarrow> BNull | Some u \<Rightarrow> BStr u)
      else if f = ''thumbnailUrl'' then (case thumbnailUrl v of None \<Rightarrow> BNull | Some u \<Rightarrow> BStr u)
      else if f = ''views'' then BNum (views v)
      else if f = ''likes'' then BNum (likes v)
      else if f = ''isActive'' then BBool (isActive v)
      else if f = ''difficulty'' then BStr (difficulty v)
      else if f = ''subject'' then (case subject v of None \<Rightarrow> BNull | Some u \<Rightarrow> BStr u)
      else if f = ''grade'' then (case grade v of None \<Rightarrow> BNull | Some u \<Rightarrow> BStr u)
      else if f = ''createdAt'' then BDate (createdAt v)
      else if f = ''updatedAt'' then BDate (updatedAt v)
      else BNull)"

fun strLe :: "string \<Rightarrow> string \<Rightarrow> bool" where
  "strLe [] ys = True"
| "strLe (x # xs) [] = False"
| "strLe (x # xs) (y # ys) =
     ((of_char x :: nat) < of_char y \<or> (x = y \<and> strLe xs ys))"

fun bsonRank :: "bson \<Rightarrow> nat" where
  "bsonRank BNull = 0"
| "bsonRank (BNum n) = 1"
| "bsonRank (BStr s) = 2"
| "bsonRank (BBool b) = 3"
| "bsonRank (BDate d) = 4"

fun bsonLe :: "bson \<Rightarrow> bson \<Rightarrow> bool" where
  "bsonLe (BNum a) (BNum b) = (a \<le> b)"
| "bsonLe (BStr a) (BStr b) = strLe a b"
| "bsonLe (BBool a) (BBool b) = (a \<longrightarrow> b)"
| "bsonLe (BDate a) (BDate b) = (a \<le> b)"
| "bsonLe a b = (bsonRank a \<le> bsonRank b)"

fun insertBy :: "('a \<Rightarrow> 'a \<Rightarrow> bool) \<Rightarrow> 'a \<Rightarrow> 'a list \<Rightarrow> 'a list" where
  "insertBy le x [] = [x]"
| "insertBy le x (y # ys) = (if le x y then x # y # ys else y # insertBy le x ys)"

definition stableSort :: "('a \<Rightarrow> 'a \<Rightarrow> bool) \<Rightarrow> 'a list \<Rightarrow> 'a list" where
  "stableSort le xs = foldr (insertBy le) xs []"

definition mongoSort :: "string \<times> int \<Rightarrow> video list \<Rightarrow> video list" where
  "mongoSort so xs =
     (let f = fst so in
      if snd so < 0 then stableSort (\<lambda>a b. bsonLe (fieldValue f b) (fieldValue f a)) xs
      else stableSort (\<lambda>a b. bsonLe (fieldValue f a) (fieldValue f b)) xs)"

text \<open>
  The store refuses a negative skip (\<open>None\<close>: the query fails). A negative limit is
  read as its magnitude and a limit of zero as no limit.
\<close>

definition mongoSkip :: "int \<Rightarrow> video list \<Rightarrow> video list option" where
  "mongoSkip n xs = (if n < 0 then None else Some (drop (nat n) xs))"

definition mongoLimit :: "int \<Rightarrow> video list \<Rightarrow> video list" where
  "mongoLimit n xs = (if n = 0 then xs else take (nat \<bar>n\<bar>) xs)"

section \<open>The list request\<close>

text \<open>The query string of a list request: every parameter is a string or absent.\<close>

record list_params =
  q_page :: "string option"
  q_limit :: "string option"
  q_bookTitle :: "string option"
  q_chapter :: "string option"
  q_type :: "string option"
  q_subject :: "string option"
  q_grade :: "string option"
  q_difficulty :: "string option"
  q_search :: "string option"
  q_sortBy :: "string option"
  q_sortOrder :: "string option"

subsection \<open>The validation rules mounted on the list route\<close>

text \<open>
  A validation chain never answers the request: it records its failures on the request,
  for a handler to read with \<open>validationResult\<close>. A failure is the parameter's name and
  the message. \<open>optional()\<close> skips an absent parameter.
\<close>

type_synonym validation_error = "string \<times> string"

definition optionalRule :: "string \<Rightarrow> string option \<Rightarrow> (string \<Rightarrow> bool) \<Rightarrow> string
    \<Rightarrow> validation_error list" where
  "optionalRule name p ok msg =
     (case p of None \<Rightarrow> [] | Some v \<Rightarrow> if ok v then [] else [(name, msg)])"

definition isIn :: "string list \<Rightarrow> string \<Rightarrow> bool" where
  "isIn values v = (v \<in> set values)"

text \<open>\<open>isInt\<close>: an optional sign and at least one digit, then the bounds.\<close>

definition isInt :: "int option \<Rightarrow> int option \<Rightarrow> string \<Rightarrow> bool" where
  "isInt lo hi v =
     (let (neg, r) = splitSign v; n = signed neg (digitsValue 10 r) in
      r \<noteq> [] \<and> list_all isDecimalDigit r
      \<and> (case lo of None \<Rightarrow> True | Some l \<Rightarrow> l \<le> n)
      \<and> (case hi of None \<Rightarrow> True | Some h \<Rightarrow> n \<le> h))"

definition queryValidationRules :: "list_params \<Rightarrow> validation_error list" where
  \<open>queryValidationRules p =
     optionalRule ''page'' (q_page p) (isInt (Some 1) None) ''Page must be a positive integer''
     @ optionalRule ''limit'' (q_limit p) (isInt (Some 1) (Some 50))
         ''Limit must be between 1 and 50''
     @ optionalRule ''type'' (q_type p) (isIn [''video'', ''image''])
         ''Type must be either "video" or "image"''
     @ optionalRule ''difficulty'' (q_difficulty p) (isIn [''easy'', ''medium'', ''hard''])
         ''Difficulty must be easy, medium, or hard''
     @ optionalRule ''sortBy'' (q_sortBy p)
         (isIn [''createdAt'', ''updatedAt'', ''title'', ''views'', ''likes''])
         ''Invalid sort field''
     @ optionalRule ''sortOrder'' (q_sortOrder p) (isIn [''asc'', ''desc''])
         ''Sort order must be asc or desc''\<close>

record request =
  query :: list_params
  validationErrors :: "validation_error list"

subsection \<open>Responses\<close>

datatype 'a response = Ok200 'a | Err nat string

record page_info =
  currentPage :: int
  totalPages :: int
  totalCount :: int
  hasNextPage :: bool
  hasPrevPage :: bool
  nextPage :: "int option"
  prevPage :: "int option"

record list_body =
  data :: "video list"
  pagination :: page_info
  filters :: "string option list"

subsection \<open>The list handler\<close>

text \<open>
  The filter object starts as \<open>{ isActive: true }\<close>; each truthy parameter adds a
  clause. Building a regular expression can throw, which the handler's \<open>catch\<close> turns
  into the 500 answer.
\<close>

definition rxClause :: "engine \<Rightarrow> string option \<Rightarrow> (regexp \<Rightarrow> cond) \<Rightarrow> clause list option" where
  "rxClause e p mk =
     (case p of
        None \<Rightarrow> Some []
      | Some s \<Rightarrow> if s = [] then Some []
                  else (case newRegExp e s of None \<Rightarrow> None | Some r \<Rightarrow> Some [Where (mk r)]))"

definition eqClause :: "string option \<Rightarrow> (string \<Rightarrow> cond) \<Rightarrow> clause list option" where
  "eqClause p mk =
     (case p of None \<Rightarrow> Some [] | Some s \<Rightarrow> if s = [] then Some [] else Some [Where (mk s)])"

definition searchClause :: "engine \<Rightarrow> string option \<Rightarrow> clause list option" where
  "searchClause e p =
     (case p of
        None \<Rightarrow> Some []
      | Some s \<Rightarrow> if s = [] then Some []
                  else (case newRegExp e s of
                          None \<Rightarrow> None
                        | Some r \<Rightarrow> Some [Or [TitleRx r, DescriptionRx r, BookTitleRx r,
                                               ChapterRx r, TagsInRx r]]))"

fun andThen :: "'a list option \<Rightarrow> 'a list option \<Rightarrow> 'a list option" where
  "andThen None b = None"
| "andThen (Some xs) None = None"
| "andThen (Some xs) (Some ys) = Some (xs @ ys)"

definition buildQuery :: "engine \<Rightarrow> list_params \<Rightarrow> clause list option" where
  "buildQuery e p =
     andThen (Some [Where (IsActive True)])
    (andThen (rxClause e (q_bookTitle p) BookTitleRx)
    (andThen (rxClause e (q_chapter p) ChapterRx)
    (andThen (eqClause (q_type p) TypeEq)
    (andThen (rxClause e (q_subject p) SubjectRx)
    (andThen (eqClause (q_grade p) GradeEq)
    (andThen (eqClause (q_difficulty p) DifficultyEq)
             (searchClause e (q_search p))))))))"

text \<open>
  The pagination block of the answer, from the three numbers it is computed from. The
  count is a number of stored entries, below \<open>2 ^ 53\<close>; for such a count the rounded
  quotient has the ceiling of the exact one, which is what the model takes.
\<close>

definition paginationOf :: "int \<Rightarrow> int \<Rightarrow> int \<Rightarrow> page_info" where
  "paginationOf pn ps cnt =
     (let tp = \<lceil>real_of_int cnt / real_of_int ps\<rceil>;
          hasNext = (pn < tp);
          hasPrev = (pn > 1)
      in \<lparr> currentPage = pn, totalPages = tp, totalCount = cnt,
           hasNextPage = hasNext, hasPrevPage = hasPrev,
           nextPage = (if hasNext then Some (toDouble (pn + 1)) else None),
           prevPage = (if hasPrev then Some (toDouble (pn - 1)) else None) \<rparr>)"

definition getAllVideos :: "engine \<Rightarrow> store \<Rightarrow> request \<Rightarrow> list_body response" where
  "getAllVideos e s req =
     (let p = query req in
      case buildQuery e p of
        None \<Rightarrow> Err 500 ''Error fetching videos''
      | Some q \<Rightarrow>
          (let pn = pageNumber (q_page p);
               ps = pageSize (q_limit p);
               so = sortOptions (q_sortBy p) (q_sortOrder p)
           in case mongoSkip (skip (q_page p) (q_limit p)) (mongoSort so (find_docs q s)) of
                None \<Rightarrow> Err 500 ''Error fetching videos''
              | Some rest \<Rightarrow>
                  Ok200 \<lparr> data = mongoLimit ps rest,
                          pagination = paginationOf pn ps (countDocuments q s),
                          filters = [q_bookTitle p, q_chapter p, q_type p, q_subject p,
                                     q_grade p, q_difficulty p, q_search p] \<rparr>))"

text \<open>The route \<open>GET /\<close>: the validation chains run, then the handler.\<close>

definition listRoute :: "engine \<Rightarrow> store \<Rightarrow> list_params \<Rightarrow> list_body response" where
  "listRoute e s p = getAllVideos e s \<lparr> query = p, validationErrors = queryValidationRules p \<rparr>"

section \<open>Link identifiers\<close>

subsection \<open>Matching the link patterns\<close>

text \<open>
  The link patterns are unanchored, so a match is searched from every start position,
  leftmost first; \<open>searchFrom m\<close> does that for a matcher \<open>m\<close> that tries one start
  position. \<open>firstSome\<close> takes the first alternative that succeeds.
\<close>

fun stripPrefix :: "string \<Rightarrow> string \<Rightarrow> string option" where
  "stripPrefix [] s = Some s"
| "stripPrefix (p # ps) [] = None"
| "stripPrefix (p # ps) (c # cs) = (if p = c then stripPrefix ps cs else None)"

fun firstSome :: "('a \<Rightarrow> 'b option) \<Rightarrow> 'a list \<Rightarrow> 'b option" where
  "firstSome f [] = None"
| "firstSome f (x # xs) = (case f x of Some r \<Rightarrow> Some r | None \<Rightarrow> firstSome f xs)"

fun searchFrom :: "(string \<Rightarrow> 'a option) \<Rightarrow> string \<Rightarrow> 'a option" where
  "searchFrom m [] = m []"
| "searchFrom m (c # cs) = (case m (c # cs) of Some r \<Rightarrow> Some r | None \<Rightarrow> searchFrom m cs)"

subsection \<open>\<open>extractYoutubeVideoId\<close> of the controller\<close>

text \<open>
  Each of the four patterns is
  \<^verbatim>\<open>(?:https?:\/\/)?(?:www\.)?MARKER([^&\n?#]+)\<close>:
  an optional protocol, an optional \<open>www.\<close>, the marker of the shape, and as the
  identifier the longest non-empty run of characters other than \<open>&\<close>, line feed,
  \<open>?\<close> and \<open>#\<close>. The optional parts are tried present before absent.
\<close>

definition patterns :: "string list" where
  "patterns = [''youtube.com/watch?v='', ''youtu.be/'', ''youtube.com/embed/'', ''youtube.com/v/'']"

definition optionalPrefixes :: "string list" where
  "optionalPrefixes = [''https://www.'', ''https://'', ''http://www.'', ''http://'', ''www.'', []]"

definition idStop :: "char \<Rightarrow> bool" where
  "idStop c = (c \<in> set [CHR ''&'', CHR 0x0A, CHR ''?'', CHR ''#''])"

definition captureRun :: "string \<Rightarrow> string option" where
  "captureRun rest = (let g = takeWhile (\<lambda>c. \<not> idStop c) rest in if g = [] then None else Some g)"

definition matchHere :: "string \<Rightarrow> string \<Rightarrow> string option" where
  "matchHere marker s =
     firstSome (\<lambda>pre. case stripPrefix (pre @ marker) s of
                        None \<Rightarrow> None
                      | Some rest \<Rightarrow> captureRun rest) optionalPrefixes"

definition extractYoutubeVideoId :: "string \<Rightarrow> string option" where
  "extractYoutubeVideoId url = firstSome (\<lambda>marker. searchFrom (matchHere marker) url) patterns"

subsection \<open>\<open>extractVideoId\<close> of the utility module\<close>

text \<open>
  One pattern,
  \<^verbatim>\<open>(?:youtube\.com\/watch\?v=|youtu\.be\/|youtube\.com\/embed\/)([a-zA-Z0-9_-]{11})\<close>:
  one of three markers, then exactly eleven characters of the identifier alphabet.
  The same pattern is used by the schema's hook that runs before an entry is saved.
\<close>

definition isIdChar :: "char \<Rightarrow> bool" where
  "isIdChar c =
     (let n = (of_char c :: nat) in
      (97 \<le> n \<and> n \<le> 122) \<or> (65 \<le> n \<and> n \<le> 90) \<or> (48 \<le> n \<and> n \<le> 57)
      \<or> c = CHR ''_'' \<or> c = CHR ''-'')"

definition utilMarkers :: "string list" where
  "utilMarkers = [''youtube.com/watch?v='', ''youtu.be/'', ''youtube.com/embed/'']"

definition captureId11 :: "string \<Rightarrow> string option" where
  "captureId11 rest =
     (if 11 \<le> length rest \<and> list_all isIdChar (take 11 rest) then Some (take 11 rest) else None)"

definition matchHereUtil :: "string \<Rightarrow> string option" where
  "matchHereUtil s =
     firstSome (\<lambda>marker. case stripPrefix marker s of
                           None \<Rightarrow> None
                         | Some rest \<Rightarrow> captureId11 rest) utilMarkers"

definition extractVideoId :: "string \<Rightarrow> string option" where
  "extractVideoId url = (if url = [] then None else searchFrom matchHereUtil url)"

subsection \<open>The accepted link shapes\<close>

text \<open>
  The four shapes a link can have, built from an identifier: the protocol and the
  \<open>www.\<close> subdomain are optional in each.
\<close>

datatype protocol = NoProtocol | Http | Https

definition linkPrefix :: "protocol \<Rightarrow> bool \<Rightarrow> string" where
  "linkPrefix pr www =
     (case pr of NoProtocol \<Rightarrow> [] | Http \<Rightarrow> ''http://'' | Https \<Rightarrow> ''https://'')
     @ (if www then ''www.'' else [])"

definition watchForm :: "protocol \<Rightarrow> bool \<Rightarrow> string \<Rightarrow> string" where
  "watchForm pr www i = linkPrefix pr www @ ''youtube.com/watch?v='' @ i"

definition shortForm :: "protocol \<Rightarrow> bool \<Rightarrow> string \<Rightarrow> string" where
  "shortForm pr www i = linkPrefix pr www @ ''youtu.be/'' @ i"

definition embedForm :: "protocol \<Rightarrow> bool \<Rightarrow> string \<Rightarrow> string" where
  "embedForm pr www i = linkPrefix pr www @ ''youtube.com/embed/'' @ i"

definition legacyForm :: "protocol \<Rightarrow> bool \<Rightarrow> string \<Rightarrow> string" where
  "legacyForm pr www i = linkPrefix pr www @ ''youtube.com/v/'' @ i"

definition validId :: "string \<Rightarrow> bool" where
  "validId i = (length i = 11 \<and> list_all isIdChar i)"

section \<open>The embed link builder\<close>

text \<open>
  An offset is a JavaScript number, and the builder sees it only through its truthiness
  and through the string it is rendered as. \<open>Whole k\<close> is an integer of magnitude up to
  \<open>2 ^ 53\<close>, which is rendered in decimal; \<open>NaN\<close> is falsy; every other number (a
  fraction, a number from \<open>1e21\<close> on, an infinity) is \<open>Other s\<close>, truthy, with \<open>s\<close> the
  string JavaScript renders it as.
\<close>

datatype jsnum = Whole int | NaN | Other string

definition validNumber :: "jsnum \<Rightarrow> bool" where
  "validNumber n = (case n of Whole k \<Rightarrow> \<bar>k\<bar> \<le> 9007199254740992 | _ \<Rightarrow> True)"

definition truthyNumber :: "jsnum \<Rightarrow> bool" where
  "truthyNumber n = (case n of Whole k \<Rightarrow> k \<noteq> 0 | NaN \<Rightarrow> False | Other s \<Rightarrow> True)"

text \<open>
  The options object of \<open>getEmbedUrl\<close>: a flag is absent, \<open>true\<close> or \<open>false\<close>; an
  offset is absent or a number (the option \<open>end\<close> is renamed).
\<close>

record embed_options =
  autoplay :: "bool option"
  mute :: "bool option"
  controls :: "bool option"
  showinfo :: "bool option"
  rel :: "bool option"
  start :: "jsnum option"
  end_offset :: "jsnum option"

definition noOptions :: embed_options where
  "noOptions = \<lparr> autoplay = None, mute = None, controls = None, showinfo = None, rel = None,
                  start = None, end_offset = None \<rparr>"

text \<open>A number appended to the parameters is turned into its string.\<close>

definition digitChar :: "nat \<Rightarrow> char" where
  "digitChar d = ''0123456789ABCDEF'' ! d"

function showNat :: "nat \<Rightarrow> string" where
  "showNat n =
     (if n < 10 then [digitChar n] else showNat (n div 10) @ [digitChar (n mod 10)])"
  by pat_completeness auto
termination
  by (relation "measure id") auto

declare showNat.simps [simp del]

definition showInt :: "int \<Rightarrow> string" where
  "showInt i = (if i < 0 then CHR ''-'' # showNat (nat (- i)) else showNat (nat i))"

definition numberToString :: "jsnum \<Rightarrow> string" where
  "numberToString n = (case n of Whole k \<Rightarrow> showInt k | NaN \<Rightarrow> ''NaN'' | Other s \<Rightarrow> s)"

text \<open>
  \<open>URLSearchParams.toString\<close>: names and values are form-encoded and joined with
  \<open>=\<close> and \<open>&\<close>. Letters, digits and \<open>* - . _\<close> stay, a space becomes \<open>+\<close>, any
  other character is written as its UTF-8 bytes in upper-case hexadecimal.
\<close>

definition percentByte :: "nat \<Rightarrow> string" where
  "percentByte b = [CHR ''%'', digitChar (b div 16), digitChar (b mod 16)]"

definition formEncodeChar :: "char \<Rightarrow> string" where
  "formEncodeChar c =
     (let n = (of_char c :: nat) in
      if (97 \<le> n \<and> n \<le> 122) \<or> (65 \<le> n \<and> n \<le> 90) \<or> (48 \<le> n \<and> n \<le> 57)
         \<or> c \<in> set ''*-._'' then [c]
      else if c = CHR '' '' then ''+''
      else if n < 128 then percentByte n
      else percentByte (192 + n div 64) @ percentByte (128 + n mod 64))"

definition formEncode :: "string \<Rightarrow> string" where
  "formEncode s = concat (map formEncodeChar s)"

fun joinWith :: "string \<Rightarrow> string list \<Rightarrow> string" where
  "joinWith sep [] = []"
| "joinWith sep [x] = x"
| "joinWith sep (x # y # ys) = x @ sep @ joinWith sep (y # ys)"

definition paramsToString :: "(string \<times> string) list \<Rightarrow> string" where
  "paramsToString ps = joinWith ''&'' (map (\<lambda>(k, v). formEncode k @ ''='' @ formEncode v) ps)"

definition flagParam :: "string \<Rightarrow> bool option \<Rightarrow> (string \<times> string) list" where
  "flagParam name f = (if f = Some True then [(name, ''1'')] else [])"

definition switchParam :: "string \<Rightarrow> bool option \<Rightarrow> (string \<times> string) list" where
  "switchParam name f =
     (case f of None \<Rightarrow> [] | Some b \<Rightarrow> [(name, if b then ''1'' else ''0'')])"

definition offsetParam :: "string \<Rightarrow> jsnum option \<Rightarrow> (string \<times> string) list" where
  "offsetParam name n =
     (case n of
        None \<Rightarrow> []
      | Some v \<Rightarrow> if truthyNumber v then [(name, numberToString v)] else [])"

definition embedParams :: "embed_options \<Rightarrow> (string \<times> string) list" where
  "embedParams opts =
     flagParam ''autoplay'' (autoplay opts)
     @ flagParam ''mute'' (mute opts)
     @ switchParam ''controls'' (controls opts)
     @ switchParam ''showinfo'' (showinfo opts)
     @ switchParam ''rel'' (rel opts)
     @ offsetParam ''start'' (start opts)
     @ offsetParam ''end'' (end_offset opts)"

definition getEmbedUrl :: "string \<Rightarrow> embed_options \<Rightarrow> string option" where
  "getEmbedUrl videoId opts =
     (if videoId = [] then None
      else (let baseUrl = ''https://www.youtube.com/embed/'' @ videoId;
                queryString = paramsToString (embedParams opts)
            in Some (if queryString \<noteq> [] then baseUrl @ ''?'' @ queryString else baseUrl)))"

section \<open>Single-entry operations\<close>

definition findById :: "string \<Rightarrow> store \<Rightarrow> video option" where
  "findById i s = List.find (\<lambda>v. doc_id v = i) s"

fun updateById :: "string \<Rightarrow> (video \<Rightarrow> video) \<Rightarrow> store \<Rightarrow> store" where
  "updateById i f [] = []"
| "updateById i f (v # vs) = (if doc_id v = i then f v # vs else v # updateById i f vs)"

text \<open>
  The hook the schema runs before a save: a video entry whose link matches the
  three-marker pattern gets its identifier and thumbnail recomputed.
\<close>

definition preSave :: "video \<Rightarrow> video" where
  "preSave v =
     (case youtubeUrl v of
        None \<Rightarrow> v
      | Some u \<Rightarrow>
          if u \<noteq> [] \<and> vtype v = ''video'' then
            (case searchFrom matchHereUtil u of
               None \<Rightarrow> v
             | Some i \<Rightarrow> v\<lparr> youtubeVideoId := Some i,
                            thumbnailUrl :=
                              Some (''https://img.youtube.com/vi/'' @ i @ ''/maxresdefault.jpg'') \<rparr>)
          else v)"

text \<open>
  The schema has \<open>timestamps: true\<close>: the store stamps \<open>updatedAt\<close> with the time of
  every save and of every update. The time is an argument of the operations that write.
\<close>

definition incrementViews :: "int \<Rightarrow> video \<Rightarrow> video" where
  "incrementViews now v =
     preSave (v\<lparr> views := toDouble (views v + 1), updatedAt := now \<rparr>)"

text \<open>
  \<open>getVideoById\<close>: an id the store cannot cast gives 400, a missing or inactive entry
  404; otherwise the view counter is incremented and saved, and the saved entry is
  returned. The save is taken to succeed.
\<close>

definition getVideoById :: "engine \<Rightarrow> int \<Rightarrow> store \<Rightarrow> string
    \<Rightarrow> video response \<times> store" where
  "getVideoById e now s i =
     (if \<not> castObjectId e i then (Err 400 ''Invalid video ID format'', s)
      else (case findById i s of
              None \<Rightarrow> (Err 404 ''Video not found'', s)
            | Some v \<Rightarrow>
                if \<not> isActive v then (Err 404 ''Video not found'', s)
                else (Ok200 (incrementViews now v),
                      updateById i (incrementViews now) s)))"

text \<open>
  \<open>deleteVideo\<close>: \<open>findByIdAndUpdate(id, { isActive: false })\<close> looks the entry up by
  id alone, whatever its \<open>isActive\<close>, sets the flag and stamps the entry.
\<close>

definition deleteVideo :: "engine \<Rightarrow> int \<Rightarrow> store \<Rightarrow> string
    \<Rightarrow> string response \<times> store" where
  "deleteVideo e now s i =
     (if \<not> castObjectId e i then (Err 400 ''Invalid video ID format'', s)
      else (case findById i s of
              None \<Rightarrow> (Err 404 ''Video not found'', s)
            | Some v \<Rightarrow>
                (Ok200 ''Video deleted successfully'',
                 updateById i (\<lambda>v. v\<lparr> isActive := False, updatedAt := now \<rparr>) s)))"

section \<open>Metadata and statistics\<close>

definition getUniqueBooks :: "store \<Rightarrow> string list response" where
  "getUniqueBooks s =
     Ok200 (stableSort strLe (remdups (map bookTitle (find_docs [Where (IsActive True)] s))))"

definition getChaptersByBook :: "engine \<Rightarrow> store \<Rightarrow> string \<Rightarrow> string list response" where
  "getChaptersByBook e s b =
     (case newRegExp e b of
        None \<Rightarrow> Err 500 ''Error fetching chapters''
      | Some r \<Rightarrow>
          Ok200 (stableSort strLe (remdups (map chapterName
                   (find_docs [Where (BookTitleRx r), Where (IsActive True)] s)))))"

record stats_totals =
  videos :: int
  images :: int
  views_sum :: int
  total :: int

record stats_body =
  totals :: stats_totals
  topBooks :: "(string \<times> int) list"
  recentVideos :: "(string \<times> string \<times> string \<times> string \<times> int \<times> int) list"

text \<open>
  The two aggregations: the sum of \<open>views\<close> over the active entries, and the number of
  active entries per book title, largest first, at most ten.
\<close>

definition sumViews :: "store \<Rightarrow> int" where
  "sumViews s = sum_list (map views (find_docs [Where (IsActive True)] s))"

definition groupCounts :: "video list \<Rightarrow> (string \<times> int) list" where
  "groupCounts xs =
     map (\<lambda>b. (b, int (length (filter (\<lambda>v. bookTitle v = b) xs)))) (remdups (map bookTitle xs))"

definition bookStats :: "store \<Rightarrow> (string \<times> int) list" where
  "bookStats s =
     take 10 (stableSort (\<lambda>a b. snd b \<le> snd a) (groupCounts (find_docs [Where (IsActive True)] s)))"

definition selectRecent :: "video \<Rightarrow> string \<times> string \<times> string \<times> string \<times> int \<times> int" where
  "selectRecent v = (doc_id v, title v, bookTitle v, chapterName v, createdAt v, views v)"

definition getVideoStats :: "store \<Rightarrow> stats_body response" where
  "getVideoStats s =
     (let totalVideos = countDocuments [Where (TypeEq ''video''), Where (IsActive True)] s;
          totalImages = countDocuments [Where (TypeEq ''image''), Where (IsActive True)] s
      in Ok200 \<lparr> totals = \<lparr> videos = totalVideos, images = totalImages,
                             views_sum = sumViews s,
                             total = toDouble (totalVideos + totalImages) \<rparr>,
                  topBooks = bookStats s,
                  recentVideos =
                    map selectRecent
                      (mongoLimit 5 (mongoSort (''createdAt'', - 1)
                         (find_docs [Where (IsActive True)] s))) \<rparr>)"

section \<open>Vocabulary for the statements\<close>

text \<open>The number a parameter reads as: \<open>None\<close> when it is absent or not numeric.\<close>

definition numericValue :: "string option \<Rightarrow> int option" where
  "numericValue p = (case p of None \<Rightarrow> None | Some s \<Rightarrow> parseInt10 s)"

definition noParams :: list_params where
  "noParams = \<lparr> q_page = None, q_limit = None, q_bookTitle = None, q_chapter = None,
                 q_type = None, q_subject = None, q_grade = None, q_difficulty = None,
                 q_search = None, q_sortBy = None, q_sortOrder = None \<rparr>"

text \<open>
  An engine for the examples: a pattern without metacharacters tests for a
  case-insensitive substring, an unbalanced parenthesis is a syntax error, and an id is
  castable when it is 24 hexadecimal digits.
\<close>

definition lowerChar :: "char \<Rightarrow> char" where
  "lowerChar c =
     (case map_of (zip ''ABCDEFGHIJKLMNOPQRSTUVWXYZ'' ''abcdefghijklmnopqrstuvwxyz'') c of
        None \<Rightarrow> c
      | Some l \<Rightarrow> l)"

definition containsCI :: "string \<Rightarrow> string \<Rightarrow> bool" where
  "containsCI p s =
     (searchFrom (\<lambda>t. case stripPrefix (map lowerChar p) t of
                        None \<Rightarrow> None
                      | Some r \<Rightarrow> Some True) (map lowerChar s) \<noteq> None)"

definition exampleEngine :: engine where
  "exampleEngine =
     \<lparr> newRegExp = (\<lambda>p. if CHR ''('' \<in> set p then None else Some (containsCI p)),
       castObjectId = (\<lambda>i. length i = 24 \<and> list_all isHexDigit i) \<rparr>"

definition exampleVideo :: "string \<Rightarrow> string \<Rightarrow> bool \<Rightarrow> video" where
  "exampleVideo i t a =
     \<lparr> doc_id = i, title = t, description = ''Worked solution'', bookTitle = ''Physics'',
       chapterName = ''Density'', vtype = ''video'',
       youtubeUrl = Some ''https://youtu.be/dQw4w9WgXcQ'',
       youtubeVideoId = Some ''dQw4w9WgXcQ'',
       thumbnailUrl = Some ''https://img.youtube.com/vi/dQw4w9WgXcQ/maxresdefault.jpg'',
       views = 0, likes = 0, isActive = a, tags = [''density''], difficulty = ''medium'',
       subject = None, grade = None, createdAt = 0, updatedAt = 0 \<rparr>"

definition exampleStore :: store where
  "exampleStore =
     [exampleVideo ''000000000000000000000001'' ''Density of water'' True,
      exampleVideo ''000000000000000000000002'' ''Density of ice'' False,
      exampleVideo ''000000000000000000000003'' ''Density of oil'' True,
      exampleVideo ''000000000000000000000004'' ''Density of air'' True]"

definition exampleRequest :: request where
  "exampleRequest =
     \<lparr> query = noParams\<lparr> q_limit := Some ''2'', q_type := Some ''video'',
                          q_search := Some ''density'' \<rparr>,
       validationErrors = [] \<rparr>"

text \<open>
  Vocabulary for the embed link builder: an option set whose offsets are numbers of the
  model, one whose offsets are whole numbers (or \<open>NaN\<close>, which is dropped), a character
  the form encoding leaves as it is, and a parameter list made of such characters only.
\<close>

definition validOffset :: "jsnum option \<Rightarrow> bool" where
  "validOffset n = (case n of None \<Rightarrow> True | Some v \<Rightarrow> validNumber v)"

definition validOptions :: "embed_options \<Rightarrow> bool" where
  "validOptions opts = (validOffset (start opts) \<and> validOffset (end_offset opts))"

definition wholeOffset :: "jsnum option \<Rightarrow> bool" where
  "wholeOffset n = (case n of Some (Other s) \<Rightarrow> False | _ \<Rightarrow> True)"

definition wholeOffsets :: "embed_options \<Rightarrow> bool" where
  "wholeOffsets opts = (wholeOffset (start opts) \<and> wholeOffset (end_offset opts))"

definition urlSafe :: "char \<Rightarrow> bool" where
  "urlSafe c = (formEncodeChar c = [c])"

definition plainPairs :: "(string \<times> string) list \<Rightarrow> bool" where
  "plainPairs ps = list_all (\<lambda>(k, v). list_all urlSafe k \<and> list_all urlSafe v) ps"

section \<open>Page size and page number\<close>

lemmas parse_defs = parseInt10_def splitSign_def isWhiteSpace_def isDecimalDigit_def
  digitsValue_def hexDigitValue_def signed_def orDefault_def toDouble_def

lemmas example_defs = exampleStore_def exampleRequest_def exampleEngine_def exampleVideo_def
  noParams_def containsCI_def lowerChar_def

lemmas handler_defs = getAllVideos_def buildQuery_def rxClause_def eqClause_def searchClause_def
  pageNumber_def pageSize_def skip_def sortOptions_def mongoSkip_def mongoLimit_def mongoSort_def
  find_docs_def countDocuments_def matches_def paginationOf_def stableSort_def Let_def

text \<open>
  The clamping helper of the validators module keeps both numbers in range, and its sort
  helper falls back to a known field and direction. The list handler computes its own
  numbers and calls neither.
\<close>

lemma validatePagination_range:
  "1 \<le> fst (validatePagination p l) \<and> 1 \<le> snd (validatePagination p l)
   \<and> snd (validatePagination p l) \<le> 50"
  by (simp add: validatePagination_def)

lemma validatePagination_zero_limit: "snd (validatePagination None (Some ''0'')) = 10"
  by (simp add: validatePagination_def parseParam_def parseInt_def parse_defs)

lemma validateSort_fallback:
  "fst (validateSort sb so defaultAllowedFields) \<in> set defaultAllowedFields
   \<and> snd (validateSort sb so defaultAllowedFields) \<in> {''asc'', ''desc''}"
  by (auto simp: validateSort_def defaultAllowedFields_def split: option.splits)




text \<open>
  The part of C1 the amended statement leaves open: a negative limit is not clamped by
  the list handler.
\<close>

lemma pageSize_negative_limit: "pageSize (Some ''-5'') = - 5"
  by (simp add: pageSize_def parse_defs)

text \<open>
  Claim C2 says the page number of a list request is at least 1 and a bad page value
  never fails the request. For the page \<open>-5\<close> the handler's page number is \<open>-5\<close>, the
  skip offset is \<open>-60\<close>, and the request ends in the 500 answer.
\<close>

theorem negative_page_not_clamped:
  "pageNumber (Some ''-5'') = - 5
   \<and> skip (Some ''-5'') None = - 60
   \<and> listRoute e s (noParams\<lparr> q_page := Some ''-5'' \<rparr>) = Err 500 ''Error fetching videos''"
  by (simp add: listRoute_def noParams_def
      getAllVideos_def buildQuery_def rxClause_def eqClause_def searchClause_def
      pageNumber_def pageSize_def skip_def sortOptions_def mongoSkip_def parse_defs)

text \<open>A page that is absent, non-numeric or zero does give page 1.\<close>

lemma pageNumber_default:
  "numericValue p = None \<or> numericValue p = Some 0 \<Longrightarrow> pageNumber p = 1"
  by (cases p) (auto simp: pageNumber_def numericValue_def orDefault_def)

section \<open>Sort parameters and validation\<close>

text \<open>
  Claim C4 says an unknown sort field falls back to \<open>createdAt\<close> and an unknown sort
  order to \<open>desc\<close>. For the field \<open>password\<close> and the order \<open>up\<close> the handler sorts
  by \<open>password\<close>, ascending.
\<close>

theorem sort_inputs_not_defaulted:
  "sortOptions (Some ''password'') (Some ''up'') = (''password'', 1)"
  by (simp add: sortOptions_def)

lemma sortOptions_defaults: "sortOptions None None = (''createdAt'', - 1)"
  by (simp add: sortOptions_def)

text \<open>
  Claim C3 says a list request whose \<open>type\<close> or \<open>difficulty\<close> is present but not an
  allowed value is rejected with a validation failure. For \<open>type=audio\<close> the rule
  records its failure, and the handler, which never reads the recorded failures, runs
  the query and answers 200.
\<close>

theorem invalid_type_not_rejected:
  \<open>queryValidationRules (noParams\<lparr> q_type := Some ''audio'' \<rparr>)
      = [(''type'', ''Type must be either "video" or "image"'')]
   \<and> listRoute e s (noParams\<lparr> q_type := Some ''audio'' \<rparr>)
      = Ok200 \<lparr> data = mongoLimit 10 (mongoSort (''createdAt'', - 1)
                         (find_docs [Where (IsActive True), Where (TypeEq ''audio'')] s)),
                pagination = paginationOf 1 10
                         (countDocuments [Where (IsActive True), Where (TypeEq ''audio'')] s),
                filters = [None, None, Some ''audio'', None, None, None, None] \<rparr>\<close>
  by (simp add: queryValidationRules_def optionalRule_def isIn_def listRoute_def noParams_def
      getAllVideos_def buildQuery_def rxClause_def eqClause_def searchClause_def
      pageNumber_def pageSize_def skip_def sortOptions_def mongoSkip_def toDouble_def)

text \<open>The same holds for every request: the recorded failures do not reach the answer.\<close>

lemma getAllVideos_ignores_validation:
  "getAllVideos e s (req\<lparr> validationErrors := es \<rparr>) = getAllVideos e s req"
  by (simp add: getAllVideos_def)

lemma invalid_difficulty_recorded:
  "queryValidationRules (noParams\<lparr> q_difficulty := Some ''extreme'' \<rparr>)
     = [(''difficulty'', ''Difficulty must be easy, medium, or hard'')]"
  by (simp add: queryValidationRules_def optionalRule_def isIn_def noParams_def)

section \<open>Pagination metadata\<close>

lemma ceil_div_bounds:
  fixes c l :: int
  assumes "0 < l"
  shows "(\<lceil>real_of_int c / real_of_int l\<rceil> - 1) * l < c \<and> c \<le> \<lceil>real_of_int c / real_of_int l\<rceil> * l"
proof -
  let ?x = "real_of_int c / real_of_int l"
  have pos: "0 < real_of_int l" using assms by simp
  have up: "?x \<le> real_of_int \<lceil>?x\<rceil>"
    by (rule le_of_int_ceiling)
  have lo: "real_of_int \<lceil>?x\<rceil> - 1 < ?x"
    using ceiling_correct [of ?x] by simp
  have "real_of_int c \<le> real_of_int \<lceil>?x\<rceil> * real_of_int l"
    using up pos by (simp only: pos_divide_le_eq)
  moreover have "(real_of_int \<lceil>?x\<rceil> - 1) * real_of_int l < real_of_int c"
    using lo pos by (simp only: pos_less_divide_eq)
  ultimately have "real_of_int c \<le> real_of_int (\<lceil>?x\<rceil> * l)"
    and "real_of_int ((\<lceil>?x\<rceil> - 1) * l) < real_of_int c"
    by simp_all
  then show ?thesis
    by (simp only: of_int_less_iff of_int_le_iff)
qed

lemma getAllVideos_Ok:
  assumes "getAllVideos e s req = Ok200 b"
  shows "\<exists>q. buildQuery e (query req) = Some q
     \<and> pagination b = paginationOf (pageNumber (q_page (query req))) (pageSize (q_limit (query req))) (countDocuments q s)
     \<and> (\<exists>rest. mongoSkip (skip (q_page (query req)) (q_limit (query req)))
           (mongoSort (sortOptions (q_sortBy (query req)) (q_sortOrder (query req))) (find_docs q s)) = Some rest
          \<and> data b = mongoLimit (pageSize (q_limit (query req))) rest)"
  using assms
  by (auto simp: getAllVideos_def Let_def split: option.splits)

lemma toDouble_exact:
  assumes "\<bar>n\<bar> \<le> 9007199254740992"
  shows "toDouble n = n"
proof -
  have "nat \<bar>n\<bar> \<le> 9007199254740992"
    using assms by linarith
  then show ?thesis
    by (simp only: toDouble_def Let_def if_True)
qed

lemma toDouble_rounds:
  "toDouble 9007199254740993 = 9007199254740992 \<and> toDouble 9007199254740995 = 9007199254740996"
  by (simp add: toDouble_def bitLength.simps)

lemma parseInt10_rounds: "parseInt10 ''9007199254740993'' = Some 9007199254740992"
  by (simp add: parse_defs bitLength.simps)

text \<open>
  Claim C5, as stated, fails: the page \<open>9007199254740994\<close> is parsed exactly and the
  request is answered, with \<open>hasPrevPage\<close> true and \<open>prevPage = 9007199254740992\<close>, two
  below the page and not the adjacent page number, because the subtraction is rounded.
\<close>

theorem large_page_counterexample:
  "getAllVideos exampleEngine []
       \<lparr> query = noParams\<lparr> q_page := Some ''9007199254740994'' \<rparr>, validationErrors = [] \<rparr>
     = Ok200 \<lparr> data = [],
               pagination = \<lparr> currentPage = 9007199254740994, totalPages = 0, totalCount = 0,
                              hasNextPage = False, hasPrevPage = True,
                              nextPage = None, prevPage = Some 9007199254740992 \<rparr>,
               filters = [None, None, None, None, None, None, None] \<rparr>"
  by (simp add: handler_defs parse_defs noParams_def bitLength.simps)

text \<open>
  Claim C5, amended: in the answer of a list request whose effective page number is below
  \<open>2 ^ 53\<close> in magnitude, with \<open>page\<close> that page number, \<open>limit\<close> the effective page
  size and \<open>totalCount\<close> the number of entries matching the filter, \<open>totalPages\<close> is the
  ceiling of \<open>totalCount / limit\<close> (for a positive limit, the least number of pages that
  hold all entries), \<open>hasNextPage\<close> is \<open>page < totalPages\<close>, \<open>hasPrevPage\<close> is
  \<open>page > 1\<close>, and \<open>nextPage\<close> and \<open>prevPage\<close> are the adjacent page numbers when the
  flag holds and null otherwise.
\<close>

theorem pagination_metadata:
  assumes "getAllVideos e s req = Ok200 b"
    and "\<bar>pageNumber (q_page (query req))\<bar> < 9007199254740992"
  shows "let page = pageNumber (q_page (query req));
             limit = pageSize (q_limit (query req));
             pg = pagination b
         in currentPage pg = page
          \<and> (\<exists>q. buildQuery e (query req) = Some q \<and> totalCount pg = int (length (filter (matches q) s)))
          \<and> totalPages pg = \<lceil>real_of_int (totalCount pg) / real_of_int limit\<rceil>
          \<and> (0 < limit \<longrightarrow> (totalPages pg - 1) * limit < totalCount pg
                            \<and> totalCount pg \<le> totalPages pg * limit)
          \<and> hasNextPage pg = (page < totalPages pg)
          \<and> hasPrevPage pg = (page > 1)
          \<and> nextPage pg = (if hasNextPage pg then Some (page + 1) else None)
          \<and> prevPage pg = (if hasPrevPage pg then Some (page - 1) else None)"
proof -
  from getAllVideos_Ok [OF assms(1)] obtain q where
    q: "buildQuery e (query req) = Some q" and
    pg: "pagination b = paginationOf (pageNumber (q_page (query req)))
           (pageSize (q_limit (query req))) (countDocuments q s)"
    by blast
  have up: "toDouble (pageNumber (q_page (query req)) + 1) = pageNumber (q_page (query req)) + 1"
    using assms(2) by (intro toDouble_exact) linarith
  have down: "toDouble (pageNumber (q_page (query req)) - 1) = pageNumber (q_page (query req)) - 1"
    using assms(2) by (intro toDouble_exact) linarith
  show ?thesis
    using q ceil_div_bounds [where l = "pageSize (q_limit (query req))" and c = "countDocuments q s"]
    by (simp add: pg paginationOf_def Let_def countDocuments_def up down)
qed

text \<open>
  An example: four entries on density, one of them soft-deleted; the request asks for
  videos matching \<open>density\<close>, two per page.
\<close>

lemma example_list_answer:
  "\<exists>d. getAllVideos exampleEngine exampleStore exampleRequest =
     Ok200 \<lparr> data = d,
             pagination = \<lparr> currentPage = 1, totalPages = 2, totalCount = 3,
                            hasNextPage = True, hasPrevPage = False,
                            nextPage = Some 2, prevPage = None \<rparr>,
             filters = [None, None, Some ''video'', None, None, None, Some ''density''] \<rparr>"
  by (simp add: example_defs handler_defs parse_defs)

text \<open>Claim C5, amended, on the example: three matches, two per page, first page.\<close>

theorem pagination_metadata_witness:
  "\<exists>b. getAllVideos exampleEngine exampleStore exampleRequest = Ok200 b
      \<and> totalCount (pagination b) = 3 \<and> totalPages (pagination b) = 2
      \<and> hasNextPage (pagination b) \<and> \<not> hasPrevPage (pagination b)
      \<and> nextPage (pagination b) = Some 2 \<and> prevPage (pagination b) = None"
proof -
  from example_list_answer obtain b where
    ev: "getAllVideos exampleEngine exampleStore exampleRequest = Ok200 b" and
    tc: "totalCount (pagination b) = 3"
    by auto
  have p: "pageNumber (q_page (query exampleRequest)) = 1"
    "pageSize (q_limit (query exampleRequest)) = 2"
    by (simp_all add: exampleRequest_def noParams_def pageNumber_def pageSize_def parse_defs)
  then have small: "\<bar>pageNumber (q_page (query exampleRequest))\<bar> < 9007199254740992"
    by simp
  from pagination_metadata [OF ev small]
  have "totalPages (pagination b) = 2 \<and> hasNextPage (pagination b)
      \<and> \<not> hasPrevPage (pagination b)
      \<and> nextPage (pagination b) = Some 2 \<and> prevPage (pagination b) = None"
    by (simp add: Let_def p tc)
  with ev tc show ?thesis by blast
qed

text \<open>
  Claim C6, as stated, fails: with no matching entry and the page \<open>2\<close>, the answer has
  \<open>totalCount = 0\<close> and \<open>hasPrevPage = true\<close>.
\<close>

theorem empty_result_counterexample:
  "getAllVideos exampleEngine []
       \<lparr> query = noParams\<lparr> q_page := Some ''2'' \<rparr>, validationErrors = [] \<rparr>
     = Ok200 \<lparr> data = [],
               pagination = \<lparr> currentPage = 2, totalPages = 0, totalCount = 0,
                              hasNextPage = False, hasPrevPage = True,
                              nextPage = None, prevPage = Some 1 \<rparr>,
               filters = [None, None, None, None, None, None, None] \<rparr>"
  by (simp add: handler_defs parse_defs noParams_def)

text \<open>
  Claim C6, amended: when no entry matches and the effective page number is at least 1,
  the answer has \<open>totalPages = 0\<close> and \<open>hasNextPage\<close> false, and \<open>hasPrevPage\<close> is
  false exactly on page 1 (it is true on every later page).
\<close>

theorem empty_result_pagination:
  assumes "getAllVideos e s req = Ok200 b"
    and "totalCount (pagination b) = 0"
    and "1 \<le> pageNumber (q_page (query req))"
  shows "totalPages (pagination b) = 0
       \<and> \<not> hasNextPage (pagination b)
       \<and> hasPrevPage (pagination b) = (1 < pageNumber (q_page (query req)))"
proof -
  from getAllVideos_Ok [OF assms(1)] obtain q where
    pg: "pagination b = paginationOf (pageNumber (q_page (query req)))
           (pageSize (q_limit (query req))) (countDocuments q s)"
    by blast
  from assms(2) have "countDocuments q s = 0"
    by (simp add: pg paginationOf_def Let_def)
  then show ?thesis
    using assms(3) by (simp add: pg paginationOf_def Let_def)
qed

lemma empty_store_answer:
  "getAllVideos exampleEngine [] \<lparr> query = noParams, validationErrors = [] \<rparr>
     = Ok200 \<lparr> data = [],
               pagination = \<lparr> currentPage = 1, totalPages = 0, totalCount = 0,
                              hasNextPage = False, hasPrevPage = False,
                              nextPage = None, prevPage = None \<rparr>,
               filters = [None, None, None, None, None, None, None] \<rparr>"
  by (simp add: handler_defs parse_defs noParams_def)

text \<open>Claim C6, amended, on the empty store and a request without parameters.\<close>

theorem empty_result_pagination_witness:
  "\<exists>b. getAllVideos exampleEngine [] \<lparr> query = noParams, validationErrors = [] \<rparr> = Ok200 b
      \<and> totalCount (pagination b) = 0
      \<and> 1 \<le> pageNumber (q_page (query \<lparr> query = noParams, validationErrors = [] \<rparr>))
      \<and> totalPages (pagination b) = 0
      \<and> \<not> hasNextPage (pagination b) \<and> \<not> hasPrevPage (pagination b)"
proof -
  let ?req = "\<lparr> query = noParams, validationErrors = [] \<rparr>"
  obtain b where ev: "getAllVideos exampleEngine [] ?req = Ok200 b"
    and tc: "totalCount (pagination b) = 0"
    using empty_store_answer by simp
  have p: "pageNumber (q_page (query ?req)) = 1"
    by (simp add: noParams_def pageNumber_def)
  then have p1: "1 \<le> pageNumber (q_page (query ?req))"
    by simp
  from empty_result_pagination [OF ev tc p1]
  have "totalPages (pagination b) = 0 \<and> \<not> hasNextPage (pagination b)
      \<and> \<not> hasPrevPage (pagination b)"
    by (simp add: noParams_def pageNumber_def)
  with ev tc p1 show ?thesis by blast
qed

section \<open>Link identifiers on the accepted shapes\<close>

text \<open>
  Every marker holds a character outside the identifier alphabet (a dot, a slash), so no
  pattern matches inside an identifier: a search over a link is decided on its literal
  part.
\<close>

lemma stripPrefix_Some: "stripPrefix p s = Some r \<Longrightarrow> s = p @ r"
  by (induction p s rule: stripPrefix.induct) (auto split: if_splits)

lemma stripPrefix_idchars:
  assumes "list_all isIdChar s" and "\<not> list_all isIdChar p"
  shows "stripPrefix p s = None"
proof (cases "stripPrefix p s")
  case None
  then show ?thesis .
next
  case (Some r)
  then have "s = p @ r" by (rule stripPrefix_Some)
  with assms show ?thesis by simp
qed

lemma matchHere_idchars:
  assumes "list_all isIdChar s" and "marker \<in> set patterns"
  shows "matchHere marker s = None"
  using assms
  by (auto simp: matchHere_def optionalPrefixes_def patterns_def stripPrefix_idchars isIdChar_def)

lemma matchHereUtil_idchars:
  assumes "list_all isIdChar s"
  shows "matchHereUtil s = None"
  using assms
  by (auto simp: matchHereUtil_def utilMarkers_def stripPrefix_idchars isIdChar_def)

lemma searchFrom_none:
  assumes "\<And>t. list_all isIdChar t \<Longrightarrow> m t = None" and "list_all isIdChar s"
  shows "searchFrom m s = None"
  using assms(2)
  by (induction s) (simp_all add: assms(1))

lemma search_matchHere_id:
  "list_all isIdChar s \<Longrightarrow> marker \<in> set patterns \<Longrightarrow> searchFrom (matchHere marker) s = None"
  by (rule searchFrom_none) (simp_all add: matchHere_idchars)

lemma search_matchHereUtil_id:
  "list_all isIdChar s \<Longrightarrow> searchFrom matchHereUtil s = None"
  by (rule searchFrom_none) (simp_all add: matchHereUtil_idchars)

lemma idchar_not_stop: "isIdChar c \<Longrightarrow> \<not> idStop c"
  by (auto simp: isIdChar_def idStop_def)

lemma captureRun_id:
  assumes "validId i"
  shows "captureRun i = Some i"
proof -
  from assms have "\<forall>c \<in> set i. \<not> idStop c"
    by (auto simp: validId_def list_all_iff idchar_not_stop)
  then have tw: "takeWhile (\<lambda>c. \<not> idStop c) i = i"
    by simp
  from assms have ne: "i \<noteq> []" by (auto simp: validId_def)
  show ?thesis
    unfolding captureRun_def Let_def tw using ne by simp
qed

lemma captureId11_id: "validId i \<Longrightarrow> captureId11 i = Some i"
  by (simp add: captureId11_def validId_def)

lemmas form_defs = watchForm_def shortForm_def embedForm_def legacyForm_def linkPrefix_def

lemma ctrl_watch:
  assumes "validId i"
  shows "extractYoutubeVideoId (watchForm pr w i) = Some i"
  using assms
  by (cases pr; cases w)
     (simp_all add: extractYoutubeVideoId_def patterns_def form_defs matchHere_def
        optionalPrefixes_def captureRun_id)

lemma ctrl_short:
  assumes "validId i"
  shows "extractYoutubeVideoId (shortForm pr w i) = Some i"
proof -
  from assms have ids: "list_all isIdChar i" by (simp add: validId_def)
  have n: "searchFrom (matchHere ''youtube.com/watch?v='') i = None"
    using ids by (simp add: search_matchHere_id patterns_def)
  show ?thesis
    using assms n
    by (cases pr; cases w)
       (simp_all add: extractYoutubeVideoId_def patterns_def form_defs matchHere_def
          optionalPrefixes_def captureRun_id)
qed

lemma ctrl_embed:
  assumes "validId i"
  shows "extractYoutubeVideoId (embedForm pr w i) = Some i"
proof -
  from assms have ids: "list_all isIdChar i" by (simp add: validId_def)
  have n: "searchFrom (matchHere ''youtube.com/watch?v='') i = None"
    "searchFrom (matchHere ''youtu.be/'') i = None"
    using ids by (simp_all add: search_matchHere_id patterns_def)
  show ?thesis
    using assms n
    by (cases pr; cases w)
       (simp_all add: extractYoutubeVideoId_def patterns_def form_defs matchHere_def
          optionalPrefixes_def captureRun_id)
qed

lemma ctrl_legacy:
  assumes "validId i"
  shows "extractYoutubeVideoId (legacyForm pr w i) = Some i"
proof -
  from assms have ids: "list_all isIdChar i" by (simp add: validId_def)
  have n: "searchFrom (matchHere ''youtube.com/watch?v='') i = None"
    "searchFrom (matchHere ''youtu.be/'') i = None"
    "searchFrom (matchHere ''youtube.com/embed/'') i = None"
    using ids by (simp_all add: search_matchHere_id patterns_def)
  show ?thesis
    using assms n
    by (cases pr; cases w)
       (simp_all add: extractYoutubeVideoId_def patterns_def form_defs matchHere_def
          optionalPrefixes_def captureRun_id)
qed

lemma util_three:
  assumes "validId i"
  shows "extractVideoId (watchForm pr w i) = Some i"
    and "extractVideoId (shortForm pr w i) = Some i"
    and "extractVideoId (embedForm pr w i) = Some i"
  using assms
  by (cases pr; cases w;
      simp add: extractVideoId_def utilMarkers_def form_defs matchHereUtil_def captureId11_id)+

lemma util_legacy:
  assumes "validId i"
  shows "extractVideoId (legacyForm pr w i) = None"
proof -
  from assms have n: "searchFrom matchHereUtil i = None"
    by (simp add: search_matchHereUtil_id validId_def)
  show ?thesis
    using n
    by (cases pr; cases w)
       (simp_all add: extractVideoId_def utilMarkers_def form_defs matchHereUtil_def)
qed

text \<open>
  Claim C7, as stated, fails for the utility module's \<open>extractVideoId\<close>: its pattern
  has no alternative for the legacy direct-play shape, so that shape gives not-found.
\<close>

theorem legacy_shape_counterexample:
  "validId ''dQw4w9WgXcQ''
   \<and> legacyForm Https True ''dQw4w9WgXcQ'' = ''https://www.youtube.com/v/dQw4w9WgXcQ''
   \<and> extractVideoId ''https://www.youtube.com/v/dQw4w9WgXcQ'' = None"
  by (simp add: validId_def isIdChar_def form_defs extractVideoId_def utilMarkers_def
      matchHereUtil_def captureId11_def)

text \<open>
  Claim C7, amended: for every identifier of 11 characters over \<open>[A-Za-z0-9_-]\<close>, with
  the protocol and \<open>www.\<close> present or not, the controller's \<open>extractYoutubeVideoId\<close>
  returns exactly the identifier on the watch-page, short-link, embed-page and legacy
  direct-play shapes; the utility module's \<open>extractVideoId\<close> returns exactly the
  identifier on the first three shapes and not-found on the legacy shape.
\<close>

theorem extraction_on_shapes:
  assumes "validId i"
  shows "extractYoutubeVideoId (watchForm pr w i) = Some i
       \<and> extractYoutubeVideoId (shortForm pr w i) = Some i
       \<and> extractYoutubeVideoId (embedForm pr w i) = Some i
       \<and> extractYoutubeVideoId (legacyForm pr w i) = Some i
       \<and> extractVideoId (watchForm pr w i) = Some i
       \<and> extractVideoId (shortForm pr w i) = Some i
       \<and> extractVideoId (embedForm pr w i) = Some i
       \<and> extractVideoId (legacyForm pr w i) = None"
  using assms
  by (simp add: ctrl_watch ctrl_short ctrl_embed ctrl_legacy util_three util_legacy)

text \<open>Claim C7, amended, at the identifier \<open>dQw4w9WgXcQ\<close> with \<open>https://www.\<close>.\<close>

theorem extraction_on_shapes_witness:
  "validId ''dQw4w9WgXcQ''
   \<and> extractYoutubeVideoId ''https://www.youtube.com/watch?v=dQw4w9WgXcQ'' = Some ''dQw4w9WgXcQ''
   \<and> extractYoutubeVideoId ''https://www.youtu.be/dQw4w9WgXcQ'' = Some ''dQw4w9WgXcQ''
   \<and> extractYoutubeVideoId ''https://www.youtube.com/embed/dQw4w9WgXcQ'' = Some ''dQw4w9WgXcQ''
   \<and> extractYoutubeVideoId ''https://www.youtube.com/v/dQw4w9WgXcQ'' = Some ''dQw4w9WgXcQ''
   \<and> extractVideoId ''https://www.youtube.com/watch?v=dQw4w9WgXcQ'' = Some ''dQw4w9WgXcQ''
   \<and> extractVideoId ''https://www.youtube.com/v/dQw4w9WgXcQ'' = None"
proof -
  have v: "validId ''dQw4w9WgXcQ''"
    by (simp add: validId_def isIdChar_def)
  show ?thesis
    using v extraction_on_shapes [OF v, of Https True]
    by (simp add: form_defs)
qed

text \<open>A link with a trailing query: the identifier stops at the \<open>?\<close>.\<close>

lemma short_link_with_query:
  "extractYoutubeVideoId ''https://youtu.be/dQw4w9WgXcQ?t=30'' = Some ''dQw4w9WgXcQ''"
  by (simp add: extractYoutubeVideoId_def patterns_def matchHere_def optionalPrefixes_def
      captureRun_def idStop_def)

section \<open>The embed link\<close>

lemma formEncode_safe: "list_all urlSafe s \<Longrightarrow> formEncode s = s"
  by (induction s) (simp_all add: formEncode_def urlSafe_def)

lemma digit_safe:
  assumes "n < 10"
  shows "urlSafe (digitChar n)"
proof -
  have "list_all (\<lambda>d. urlSafe (digitChar d)) [0..<10]"
    by (simp add: upt_conv_Cons digitChar_def urlSafe_def formEncodeChar_def)
  then have "\<forall>d \<in> set [0..<10]. urlSafe (digitChar d)"
    by (simp only: list_all_iff)
  moreover have "n \<in> set [0..<10]"
    using assms by simp
  ultimately show ?thesis by blast
qed

lemma showNat_safe: "list_all urlSafe (showNat n)"
proof (induction n rule: showNat.induct)
  case (1 n)
  show ?case
  proof (cases "n < 10")
    case True
    then show ?thesis by (subst showNat.simps) (simp add: digit_safe)
  next
    case False
    with 1 show ?thesis by (subst showNat.simps) (simp add: digit_safe)
  qed
qed

lemma minus_safe: "urlSafe CHR ''-''"
  by (simp add: urlSafe_def formEncodeChar_def)

lemma showInt_safe: "list_all urlSafe (showInt i)"
  by (simp add: showInt_def showNat_safe minus_safe)

lemma plainPairs_append: "plainPairs (a @ b) = (plainPairs a \<and> plainPairs b)"
  by (simp add: plainPairs_def)

lemma one_safe: "list_all urlSafe ''1''" and zero_safe: "list_all urlSafe ''0''"
  by (simp_all add: urlSafe_def formEncodeChar_def)

lemma flagParam_plain: "list_all urlSafe name \<Longrightarrow> plainPairs (flagParam name f)"
  using one_safe by (simp add: plainPairs_def flagParam_def)

lemma switchParam_plain: "list_all urlSafe name \<Longrightarrow> plainPairs (switchParam name f)"
  using one_safe zero_safe by (cases f) (simp_all add: plainPairs_def switchParam_def)

lemma offsetParam_plain:
  assumes "list_all urlSafe name" and "wholeOffset n"
  shows "plainPairs (offsetParam name n)"
proof (cases n)
  case None
  then show ?thesis by (simp add: plainPairs_def offsetParam_def)
next
  case (Some x)
  with assms show ?thesis
    by (cases x)
       (simp_all add: plainPairs_def offsetParam_def wholeOffset_def truthyNumber_def
          numberToString_def showInt_safe)
qed

lemma names_safe:
  "list_all urlSafe ''autoplay''" "list_all urlSafe ''mute''" "list_all urlSafe ''controls''"
  "list_all urlSafe ''showinfo''" "list_all urlSafe ''rel''" "list_all urlSafe ''start''"
  "list_all urlSafe ''end''"
  by (simp_all add: urlSafe_def formEncodeChar_def)

lemma embedParams_plain:
  assumes "wholeOffsets opts"
  shows "plainPairs (embedParams opts)"
proof -
  from assms have w: "wholeOffset (start opts)" "wholeOffset (end_offset opts)"
    by (simp_all add: wholeOffsets_def)
  show ?thesis
    unfolding embedParams_def plainPairs_append
    by (intro conjI flagParam_plain switchParam_plain offsetParam_plain names_safe w)
qed

text \<open>The names of the parameters are never changed by the encoding.\<close>

lemma keys_append:
  "list_all (\<lambda>(k, v). list_all urlSafe k) (a @ b)
     = (list_all (\<lambda>(k, v). list_all urlSafe k) a \<and> list_all (\<lambda>(k, v). list_all urlSafe k) b)"
  by simp

lemma flagParam_keys:
  "list_all urlSafe name \<Longrightarrow> list_all (\<lambda>(k, v). list_all urlSafe k) (flagParam name f)"
  by (simp add: flagParam_def)

lemma switchParam_keys:
  "list_all urlSafe name \<Longrightarrow> list_all (\<lambda>(k, v). list_all urlSafe k) (switchParam name f)"
  by (cases f) (simp_all add: switchParam_def)

lemma offsetParam_keys:
  "list_all urlSafe name \<Longrightarrow> list_all (\<lambda>(k, v). list_all urlSafe k) (offsetParam name n)"
  by (cases n) (simp_all add: offsetParam_def)

lemma embedParams_keys: "list_all (\<lambda>(k, v). list_all urlSafe k) (embedParams opts)"
  unfolding embedParams_def keys_append
  by (intro conjI flagParam_keys switchParam_keys offsetParam_keys names_safe)

lemma paramsToString_keys:
  assumes "list_all (\<lambda>(k, v). list_all urlSafe k) ps"
  shows "paramsToString ps = joinWith ''&'' (map (\<lambda>(k, v). k @ ''='' @ formEncode v) ps)"
proof -
  have eq: "map (\<lambda>(k, v). formEncode k @ ''='' @ formEncode v) ps
              = map (\<lambda>(k, v). k @ ''='' @ formEncode v) ps"
    using assms by (induction ps) (auto simp: formEncode_safe)
  show ?thesis
    unfolding paramsToString_def eq ..
qed

lemma paramsToString_plain:
  assumes "plainPairs ps"
  shows "paramsToString ps = joinWith ''&'' (map (\<lambda>(k, v). k @ ''='' @ v) ps)"
proof -
  have eq: "map (\<lambda>(k, v). formEncode k @ ''='' @ formEncode v) ps = map (\<lambda>(k, v). k @ ''='' @ v) ps"
    using assms by (induction ps) (auto simp: plainPairs_def formEncode_safe)
  show ?thesis
    unfolding paramsToString_def eq ..
qed

lemma joinWith_nonempty: "xs \<noteq> [] \<Longrightarrow> hd xs \<noteq> [] \<Longrightarrow> joinWith sep xs \<noteq> []"
  by (induction sep xs rule: joinWith.induct) simp_all

lemma paramsToString_empty_iff: "paramsToString ps = [] \<longleftrightarrow> ps = []"
proof (cases ps)
  case Nil
  then show ?thesis by (simp add: paramsToString_def)
next
  case (Cons a list)
  then have "joinWith ''&'' (map (\<lambda>(k, v). formEncode k @ ''='' @ formEncode v) ps) \<noteq> []"
    by (intro joinWith_nonempty) (auto split: prod.splits)
  with Cons show ?thesis by (simp add: paramsToString_def)
qed

lemma flagParam_mem:
  "(k, v) \<in> set (flagParam name f) \<longleftrightarrow> k = name \<and> v = ''1'' \<and> f = Some True"
  by (simp add: flagParam_def)

lemma switchParam_mem:
  "(k, v) \<in> set (switchParam name f) \<longleftrightarrow>
     k = name \<and> (\<exists>b. f = Some b \<and> v = (if b then ''1'' else ''0''))"
  by (cases f) (simp_all add: switchParam_def)

lemma offsetParam_mem:
  "(k, v) \<in> set (offsetParam name n) \<longleftrightarrow>
     k = name \<and> (\<exists>x. n = Some x \<and> truthyNumber x \<and> v = numberToString x)"
  by (cases n) (auto simp: offsetParam_def)

lemma embedParams_mem:
  "(k, v) \<in> set (embedParams opts) \<longleftrightarrow>
     (k = ''autoplay'' \<and> v = ''1'' \<and> autoplay opts = Some True)
   \<or> (k = ''mute'' \<and> v = ''1'' \<and> mute opts = Some True)
   \<or> (k = ''controls'' \<and> (\<exists>b. controls opts = Some b \<and> v = (if b then ''1'' else ''0'')))
   \<or> (k = ''showinfo'' \<and> (\<exists>b. showinfo opts = Some b \<and> v = (if b then ''1'' else ''0'')))
   \<or> (k = ''rel'' \<and> (\<exists>b. rel opts = Some b \<and> v = (if b then ''1'' else ''0'')))
   \<or> (k = ''start'' \<and> (\<exists>n. start opts = Some n \<and> truthyNumber n \<and> v = numberToString n))
   \<or> (k = ''end''
        \<and> (\<exists>n. end_offset opts = Some n \<and> truthyNumber n \<and> v = numberToString n))"
  unfolding embedParams_def set_append Un_iff flagParam_mem switchParam_mem offsetParam_mem
  by (rule refl)

lemma whole_offset_listed:
  assumes "n \<noteq> 0"
  shows "start opts = Some (Whole n) \<Longrightarrow> (''start'', showInt n) \<in> set (embedParams opts)"
    and "end_offset opts = Some (Whole n) \<Longrightarrow> (''end'', showInt n) \<in> set (embedParams opts)"
  using assms by (simp_all add: embedParams_mem truthyNumber_def numberToString_def)

lemma embedParams_noOptions: "embedParams noOptions = []"
  by (simp add: embedParams_def noOptions_def flagParam_def switchParam_def offsetParam_def)

lemma getEmbedUrl_encoded:
  assumes "videoId \<noteq> []"
  shows "getEmbedUrl videoId opts =
        Some (''https://www.youtube.com/embed/'' @ videoId
              @ (if embedParams opts = [] then []
                 else ''?'' @ joinWith ''&''
                        (map (\<lambda>(k, v). k @ ''='' @ formEncode v) (embedParams opts))))"
proof (cases "embedParams opts = []")
  case True
  then show ?thesis
    using assms by (simp add: getEmbedUrl_def paramsToString_def)
next
  case False
  then have ne: "paramsToString (embedParams opts) \<noteq> []"
    by (simp add: paramsToString_empty_iff)
  have q: "paramsToString (embedParams opts)
             = joinWith ''&'' (map (\<lambda>(k, v). k @ ''='' @ formEncode v) (embedParams opts))"
    by (rule paramsToString_keys [OF embedParams_keys])
  from ne have "getEmbedUrl videoId opts =
      Some (''https://www.youtube.com/embed/'' @ videoId @ ''?'' @ paramsToString (embedParams opts))"
    using assms by (simp add: getEmbedUrl_def Let_def)
  with False show ?thesis
    by (simp only: q if_False)
qed

lemma getEmbedUrl_plain:
  assumes "videoId \<noteq> []" and "wholeOffsets opts"
  shows "getEmbedUrl videoId opts =
        Some (''https://www.youtube.com/embed/'' @ videoId
              @ (if embedParams opts = [] then []
                 else ''?'' @ joinWith ''&'' (map (\<lambda>(k, v). k @ ''='' @ v) (embedParams opts))))"
proof (cases "embedParams opts = []")
  case True
  then show ?thesis
    using assms(1) by (simp add: getEmbedUrl_def paramsToString_def)
next
  case False
  then have ne: "paramsToString (embedParams opts) \<noteq> []"
    by (simp add: paramsToString_empty_iff)
  have q: "paramsToString (embedParams opts)
             = joinWith ''&'' (map (\<lambda>(k, v). k @ ''='' @ v) (embedParams opts))"
    by (rule paramsToString_plain [OF embedParams_plain [OF assms(2)]])
  from ne have "getEmbedUrl videoId opts =
      Some (''https://www.youtube.com/embed/'' @ videoId @ ''?'' @ paramsToString (embedParams opts))"
    using assms(1) by (simp add: getEmbedUrl_def Let_def)
  with False show ?thesis
    by (simp only: q if_False)
qed

text \<open>
  Claim C8, as stated, fails: a start offset of \<open>0\<close>, explicitly supplied, does not
  appear in the link.
\<close>

theorem zero_offset_counterexample:
  "getEmbedUrl ''dQw4w9WgXcQ'' (noOptions\<lparr> start := Some (Whole 0) \<rparr>)
     = Some ''https://www.youtube.com/embed/dQw4w9WgXcQ''"
  by (simp add: getEmbedUrl_def embedParams_def noOptions_def flagParam_def switchParam_def
      offsetParam_def truthyNumber_def paramsToString_def)

text \<open>
  Claim C8, amended: for a non-empty identifier and options whose offsets are numbers of
  the model, the link is the embed template followed, when there are parameters, by
  \<open>?\<close> and the parameters as \<open>name=value\<close> joined by \<open>&\<close>, each value
  form-encoded. The parameters are exactly: \<open>autoplay=1\<close> and \<open>mute=1\<close> when the flag
  is true (a false flag adds nothing); \<open>controls\<close>, \<open>showinfo\<close> and \<open>rel\<close> as \<open>1\<close>
  or \<open>0\<close> whenever supplied; \<open>start\<close> and \<open>end\<close> as the string of the number
  whenever supplied and neither zero nor \<open>NaN\<close>. When every offset is a whole number
  (or absent) the values pass the encoding unchanged, and a whole offset other than zero
  is written in decimal. With no option the link is the bare template.
\<close>

theorem embed_url_parameters:
  assumes "videoId \<noteq> []" and "validOptions opts"
  shows "getEmbedUrl videoId noOptions = Some (''https://www.youtube.com/embed/'' @ videoId)
    \<and> getEmbedUrl videoId opts =
        Some (''https://www.youtube.com/embed/'' @ videoId
              @ (if embedParams opts = [] then []
                 else ''?'' @ joinWith ''&''
                        (map (\<lambda>(k, v). k @ ''='' @ formEncode v) (embedParams opts))))
    \<and> (\<forall>k v. (k, v) \<in> set (embedParams opts) \<longleftrightarrow>
     (k = ''autoplay'' \<and> v = ''1'' \<and> autoplay opts = Some True)
   \<or> (k = ''mute'' \<and> v = ''1'' \<and> mute opts = Some True)
   \<or> (k = ''controls'' \<and> (\<exists>b. controls opts = Some b \<and> v = (if b then ''1'' else ''0'')))
   \<or> (k = ''showinfo'' \<and> (\<exists>b. showinfo opts = Some b \<and> v = (if b then ''1'' else ''0'')))
   \<or> (k = ''rel'' \<and> (\<exists>b. rel opts = Some b \<and> v = (if b then ''1'' else ''0'')))
   \<or> (k = ''start'' \<and> (\<exists>n. start opts = Some n \<and> truthyNumber n \<and> v = numberToString n))
   \<or> (k = ''end''
        \<and> (\<exists>n. end_offset opts = Some n \<and> truthyNumber n \<and> v = numberToString n)))
    \<and> (wholeOffsets opts \<longrightarrow>
         getEmbedUrl videoId opts =
           Some (''https://www.youtube.com/embed/'' @ videoId
                 @ (if embedParams opts = [] then []
                    else ''?'' @ joinWith ''&''
                           (map (\<lambda>(k, v). k @ ''='' @ v) (embedParams opts)))))
    \<and> (\<forall>n. n \<noteq> 0 \<and> start opts = Some (Whole n)
           \<longrightarrow> (''start'', showInt n) \<in> set (embedParams opts))
    \<and> (\<forall>n. n \<noteq> 0 \<and> end_offset opts = Some (Whole n)
           \<longrightarrow> (''end'', showInt n) \<in> set (embedParams opts))"
proof (intro conjI allI impI)
  show "getEmbedUrl videoId noOptions = Some (''https://www.youtube.com/embed/'' @ videoId)"
    using getEmbedUrl_encoded [OF assms(1), of noOptions] by (simp add: embedParams_noOptions)
  show "getEmbedUrl videoId opts =
        Some (''https://www.youtube.com/embed/'' @ videoId
              @ (if embedParams opts = [] then []
                 else ''?'' @ joinWith ''&''
                        (map (\<lambda>(k, v). k @ ''='' @ formEncode v) (embedParams opts))))"
    by (rule getEmbedUrl_encoded [OF assms(1)])
  show "getEmbedUrl videoId opts =
           Some (''https://www.youtube.com/embed/'' @ videoId
                 @ (if embedParams opts = [] then []
                    else ''?'' @ joinWith ''&''
                           (map (\<lambda>(k, v). k @ ''='' @ v) (embedParams opts))))"
    if "wholeOffsets opts"
    using assms(1) that by (rule getEmbedUrl_plain)
  show "(''start'', showInt n) \<in> set (embedParams opts)"
    if "n \<noteq> 0 \<and> start opts = Some (Whole n)" for n
    using that whole_offset_listed(1) [of n opts] by blast
  show "(''end'', showInt n) \<in> set (embedParams opts)"
    if "n \<noteq> 0 \<and> end_offset opts = Some (Whole n)" for n
    using that whole_offset_listed(2) [of n opts] by blast
qed (rule embedParams_mem)

text \<open>Claim C8, amended, with autoplay on, controls off and a start offset of 30.\<close>

theorem embed_url_parameters_witness:
  "''dQw4w9WgXcQ'' \<noteq> []
   \<and> validOptions (noOptions\<lparr> autoplay := Some True, controls := Some False,
                               start := Some (Whole 30) \<rparr>)
   \<and> wholeOffsets (noOptions\<lparr> autoplay := Some True, controls := Some False,
                               start := Some (Whole 30) \<rparr>)
   \<and> getEmbedUrl ''dQw4w9WgXcQ'' noOptions = Some ''https://www.youtube.com/embed/dQw4w9WgXcQ''
   \<and> getEmbedUrl ''dQw4w9WgXcQ''
        (noOptions\<lparr> autoplay := Some True, controls := Some False, start := Some (Whole 30) \<rparr>)
      = Some ''https://www.youtube.com/embed/dQw4w9WgXcQ?autoplay=1&controls=0&start=30''
   \<and> (''start'', ''30'') \<in> set (embedParams
        (noOptions\<lparr> autoplay := Some True, controls := Some False,
                    start := Some (Whole 30) \<rparr>))"
proof -
  let ?o = "noOptions\<lparr> autoplay := Some True, controls := Some False, start := Some (Whole 30) \<rparr>"
  have ne: "''dQw4w9WgXcQ'' \<noteq> []" by simp
  have vo: "validOptions ?o"
    by (simp add: validOptions_def validOffset_def validNumber_def noOptions_def)
  have wo: "wholeOffsets ?o"
    by (simp add: wholeOffsets_def wholeOffset_def noOptions_def)
  have st: "start ?o = Some (Whole 30)" by simp
  have sh: "showInt 30 = ''30''"
    by (simp add: showInt_def showNat.simps digitChar_def)
  have ps: "embedParams ?o = [(''autoplay'', ''1''), (''controls'', ''0''), (''start'', ''30'')]"
    by (simp add: embedParams_def noOptions_def flagParam_def switchParam_def offsetParam_def
        truthyNumber_def numberToString_def sh)
  note t = embed_url_parameters [OF ne vo]
  have bare: "getEmbedUrl ''dQw4w9WgXcQ'' noOptions
                = Some ''https://www.youtube.com/embed/dQw4w9WgXcQ''"
    using t [THEN conjunct1] by simp
  have "wholeOffsets ?o \<longrightarrow>
         getEmbedUrl ''dQw4w9WgXcQ'' ?o =
           Some (''https://www.youtube.com/embed/'' @ ''dQw4w9WgXcQ''
                 @ (if embedParams ?o = [] then []
                    else ''?'' @ joinWith ''&''
                           (map (\<lambda>(k, v). k @ ''='' @ v) (embedParams ?o))))"
    using t [THEN conjunct2, THEN conjunct2, THEN conjunct2, THEN conjunct1] .
  with wo have link: "getEmbedUrl ''dQw4w9WgXcQ'' ?o
      = Some ''https://www.youtube.com/embed/dQw4w9WgXcQ?autoplay=1&controls=0&start=30''"
    by (simp add: ps)
  have mem: "(''start'', ''30'') \<in> set (embedParams ?o)"
    by (simp add: ps)
  from ne vo wo bare link mem show ?thesis by blast
qed

text \<open>
  A false flag adds nothing, \<open>NaN\<close> is dropped, and a number that is not rendered in
  decimal has its plus sign percent-encoded.
\<close>

lemma false_flag_omitted:
  "getEmbedUrl ''dQw4w9WgXcQ'' (noOptions\<lparr> autoplay := Some False \<rparr>)
     = Some ''https://www.youtube.com/embed/dQw4w9WgXcQ''"
  by (simp add: getEmbedUrl_def embedParams_def noOptions_def flagParam_def switchParam_def
      offsetParam_def paramsToString_def)

lemma nan_offset_omitted:
  "getEmbedUrl ''dQw4w9WgXcQ'' (noOptions\<lparr> start := Some NaN \<rparr>)
     = Some ''https://www.youtube.com/embed/dQw4w9WgXcQ''"
  by (simp add: getEmbedUrl_def embedParams_def noOptions_def flagParam_def switchParam_def
      offsetParam_def truthyNumber_def paramsToString_def)

lemma exponent_offset_encoded:
  "getEmbedUrl ''dQw4w9WgXcQ'' (noOptions\<lparr> start := Some (Other ''1e+21'') \<rparr>)
     = Some ''https://www.youtube.com/embed/dQw4w9WgXcQ?start=1e%2B21''"
  by (simp add: getEmbedUrl_def embedParams_def noOptions_def flagParam_def switchParam_def
      offsetParam_def truthyNumber_def numberToString_def paramsToString_def formEncode_def
      formEncodeChar_def percentByte_def digitChar_def)

lemma fraction_offset_written:
  "getEmbedUrl ''dQw4w9WgXcQ'' (noOptions\<lparr> start := Some (Other ''1.5'') \<rparr>)
     = Some ''https://www.youtube.com/embed/dQw4w9WgXcQ?start=1.5''"
  by (simp add: getEmbedUrl_def embedParams_def noOptions_def flagParam_def switchParam_def
      offsetParam_def truthyNumber_def numberToString_def paramsToString_def formEncode_def
      formEncodeChar_def percentByte_def digitChar_def)

section \<open>Soft-deleted entries\<close>

lemma andThen_Some:
  "andThen a b = Some q \<longleftrightarrow> (\<exists>xs ys. a = Some xs \<and> b = Some ys \<and> q = xs @ ys)"
  by (cases a; cases b) auto

lemma buildQuery_active:
  assumes "buildQuery e p = Some q"
  shows "\<exists>q'. q = Where (IsActive True) # q'"
  using assms unfolding buildQuery_def andThen_Some by auto

lemma buildQuery_matches_active:
  assumes "buildQuery e p = Some q" and "matches q v"
  shows "isActive v"
  using buildQuery_active [OF assms(1)] assms(2) by (auto simp: matches_def)

lemma filter_active_absorb:
  assumes "\<And>v. P v \<Longrightarrow> isActive v"
  shows "filter P (filter isActive s) = filter P s"
  using assms by (induction s) auto

lemma find_docs_active:
  assumes "\<And>v. matches q v \<Longrightarrow> isActive v"
  shows "find_docs q (filter isActive s) = find_docs q s"
  using filter_active_absorb [of "matches q" s] assms
  by (simp add: find_docs_def)

lemma countDocuments_active:
  assumes "\<And>v. matches q v \<Longrightarrow> isActive v"
  shows "countDocuments q (filter isActive s) = countDocuments q s"
  using filter_active_absorb [of "matches q" s] assms
  by (simp add: countDocuments_def)

lemma getAllVideos_active_only:
  "getAllVideos e (filter isActive s) req = getAllVideos e s req"
proof (cases "buildQuery e (query req)")
  case None
  then show ?thesis by (simp add: getAllVideos_def)
next
  case (Some q)
  have act: "\<And>v. matches q v \<Longrightarrow> isActive v"
    using Some by (rule buildQuery_matches_active)
  have "find_docs q (filter isActive s) = find_docs q s"
    using act by (rule find_docs_active)
  moreover have "countDocuments q (filter isActive s) = countDocuments q s"
    using act by (rule countDocuments_active)
  ultimately show ?thesis
    using Some by (simp add: getAllVideos_def Let_def split: option.splits)
qed

lemma set_insertBy: "set (insertBy le x ys) = insert x (set ys)"
  by (induction ys) auto

lemma set_stableSort: "set (stableSort le xs) = set xs"
  by (induction xs) (simp_all add: stableSort_def set_insertBy)

lemma set_mongoSort: "set (mongoSort so xs) = set xs"
  by (simp add: mongoSort_def Let_def set_stableSort)

lemma set_mongoLimit: "set (mongoLimit n xs) \<subseteq> set xs"
  by (auto simp: mongoLimit_def dest: in_set_takeD)

lemma set_mongoSkip: "mongoSkip n xs = Some ys \<Longrightarrow> set ys \<subseteq> set xs"
  by (auto simp: mongoSkip_def split: if_splits dest: in_set_dropD)

lemma getAllVideos_data_active:
  assumes "getAllVideos e s req = Ok200 b"
  shows "list_all isActive (data b)"
proof -
  from assms obtain q rest where
    q: "buildQuery e (query req) = Some q" and
    sk: "mongoSkip (skip (q_page (query req)) (q_limit (query req)))
           (mongoSort (sortOptions (q_sortBy (query req)) (q_sortOrder (query req)))
              (find_docs q s)) = Some rest" and
    d: "data b = mongoLimit (pageSize (q_limit (query req))) rest"
    by (auto simp: getAllVideos_def Let_def split: option.splits)
  have "set (data b) \<subseteq> set (find_docs q s)"
    using set_mongoLimit set_mongoSkip [OF sk] by (auto simp: d set_mongoSort)
  then have "\<forall>v \<in> set (data b). matches q v"
    by (auto simp: find_docs_def)
  then show ?thesis
    using buildQuery_matches_active [OF q] by (auto simp: list_all_iff)
qed

lemma getVideoById_inactive:
  assumes "findById i s = Some v" and "\<not> isActive v"
  shows "getVideoById e now s i = (Err 400 ''Invalid video ID format'', s)
       \<or> getVideoById e now s i = (Err 404 ''Video not found'', s)"
  using assms by (simp add: getVideoById_def)

lemma isActive_incrementViews: "isActive (incrementViews now v) = isActive v"
  by (simp add: incrementViews_def preSave_def split: option.splits)

lemma getVideoById_Ok_active:
  assumes "fst (getVideoById e now s i) = Ok200 v"
  shows "isActive v"
  using assms
  by (auto simp: getVideoById_def isActive_incrementViews split: if_splits option.splits)

lemma stats_active_only: "getVideoStats (filter isActive s) = getVideoStats s"
proof -
  have a: "\<And>q. find_docs (q @ [Where (IsActive True)]) (filter isActive s)
              = find_docs (q @ [Where (IsActive True)]) s"
    by (rule find_docs_active) (simp add: matches_def)
  have c: "\<And>q. countDocuments (q @ [Where (IsActive True)]) (filter isActive s)
              = countDocuments (q @ [Where (IsActive True)]) s"
    by (rule countDocuments_active) (simp add: matches_def)
  show ?thesis
    using a [of "[]"] c [of "[Where (TypeEq ''video'')]"] c [of "[Where (TypeEq ''image'')]"]
    by (simp add: getVideoStats_def sumViews_def bookStats_def)
qed

lemma books_active_only: "getUniqueBooks (filter isActive s) = getUniqueBooks s"
proof -
  have "find_docs [Where (IsActive True)] (filter isActive s) = find_docs [Where (IsActive True)] s"
    by (rule find_docs_active) (simp add: matches_def)
  then show ?thesis by (simp add: getUniqueBooks_def)
qed

lemma chapters_active_only:
  "getChaptersByBook e (filter isActive s) b = getChaptersByBook e s b"
proof -
  have "\<And>r. find_docs [Where (BookTitleRx r), Where (IsActive True)] (filter isActive s)
           = find_docs [Where (BookTitleRx r), Where (IsActive True)] s"
    by (rule find_docs_active) (simp add: matches_def)
  then show ?thesis by (simp add: getChaptersByBook_def split: option.splits)
qed

text \<open>
  Claim C9: an entry with \<open>isActive = false\<close> never appears in what the read
  operations return. The list, the statistics and the two metadata operations give the
  same answer as on the store without its inactive entries, and every listed entry is
  active; the single-entry read answers 404 for an inactive entry and leaves the store
  as it is, and an entry it returns is active.
\<close>

theorem soft_deleted_invisible:
  "getAllVideos e (filter isActive s) req = getAllVideos e s req
   \<and> (\<forall>b. getAllVideos e s req = Ok200 b \<longrightarrow> list_all isActive (data b))
   \<and> (\<forall>v. castObjectId e i \<and> findById i s = Some v \<and> \<not> isActive v
          \<longrightarrow> getVideoById e now s i = (Err 404 ''Video not found'', s))
   \<and> (\<forall>v. fst (getVideoById e now s i) = Ok200 v \<longrightarrow> isActive v)
   \<and> getVideoStats (filter isActive s) = getVideoStats s
   \<and> getUniqueBooks (filter isActive s) = getUniqueBooks s
   \<and> getChaptersByBook e (filter isActive s) bk = getChaptersByBook e s bk"
proof (intro conjI allI impI)
  show "getAllVideos e (filter isActive s) req = getAllVideos e s req"
    by (rule getAllVideos_active_only)
  show "list_all isActive (data b)" if "getAllVideos e s req = Ok200 b" for b
    using that by (rule getAllVideos_data_active)
  show "getVideoById e now s i = (Err 404 ''Video not found'', s)"
    if "castObjectId e i \<and> findById i s = Some v \<and> \<not> isActive v" for v
    using that by (simp add: getVideoById_def)
  show "isActive v" if "fst (getVideoById e now s i) = Ok200 v" for v
    using that by (rule getVideoById_Ok_active)
  show "getVideoStats (filter isActive s) = getVideoStats s"
    by (rule stats_active_only)
  show "getUniqueBooks (filter isActive s) = getUniqueBooks s"
    by (rule books_active_only)
  show "getChaptersByBook e (filter isActive s) bk = getChaptersByBook e s bk"
    by (rule chapters_active_only)
qed

text \<open>
  Claim C9 on the example store: the inactive entry matches every filter of the example
  request, is not listed, and cannot be read by its id.
\<close>

theorem soft_deleted_invisible_witness:
  "\<not> isActive (exampleVideo ''000000000000000000000002'' ''Density of ice'' False)
   \<and> exampleVideo ''000000000000000000000002'' ''Density of ice'' False \<in> set exampleStore
   \<and> (\<exists>b. getAllVideos exampleEngine exampleStore exampleRequest = Ok200 b
          \<and> list_all isActive (data b)
          \<and> exampleVideo ''000000000000000000000002'' ''Density of ice'' False \<notin> set (data b))
   \<and> getVideoById exampleEngine 1000 exampleStore ''000000000000000000000002''
        = (Err 404 ''Video not found'', exampleStore)"
proof -
  let ?i = "''000000000000000000000002''"
  let ?v = "exampleVideo ?i ''Density of ice'' False"
  from example_list_answer obtain b where
    ev: "getAllVideos exampleEngine exampleStore exampleRequest = Ok200 b"
    by auto
  have inact: "\<not> isActive ?v" by (simp add: exampleVideo_def)
  have mem: "?v \<in> set exampleStore" by (simp add: exampleStore_def)
  have pre: "castObjectId exampleEngine ?i \<and> findById ?i exampleStore = Some ?v \<and> \<not> isActive ?v"
    by (simp add: exampleEngine_def exampleStore_def exampleVideo_def findById_def
        isHexDigit_def hexDigitValue_def)
  note t = soft_deleted_invisible [where e = exampleEngine and s = exampleStore
      and req = exampleRequest and i = ?i and now = 1000]
  from t ev have act: "list_all isActive (data b)" by blast
  with inact have out: "?v \<notin> set (data b)" by (auto simp: list_all_iff)
  from t pre have "getVideoById exampleEngine 1000 exampleStore ?i
      = (Err 404 ''Video not found'', exampleStore)"
    by blast
  with inact mem ev act out show ?thesis by blast
qed

section \<open>Deleting twice\<close>

lemma findById_updateById:
  assumes "\<And>v. doc_id (f v) = doc_id v"
  shows "findById i (updateById i f s) = map_option f (findById i s)"
  by (induction s) (simp_all add: findById_def assms)

lemma findById_updateById_other:
  assumes "\<And>v. doc_id (f v) = doc_id v" and "j \<noteq> i"
  shows "findById j (updateById i f s) = findById j s"
  using assms(2) by (induction s) (auto simp: findById_def assms(1))

lemma updateById_agree:
  assumes "findById i s = Some v" and "f v = g v"
  shows "updateById i f s = updateById i g s"
  using assms by (induction s) (auto simp: findById_def split: if_splits)

text \<open>
  Claim C10, as stated, fails: deleting an entry that is already inactive reports
  success, but it does not leave the entry unchanged: its \<open>updatedAt\<close> stamp, 0 in the
  example store, is set to the time of the delete.
\<close>

theorem delete_stamp_counterexample:
  "findById ''000000000000000000000002'' exampleStore
     = Some (exampleVideo ''000000000000000000000002'' ''Density of ice'' False)
   \<and> \<not> isActive (exampleVideo ''000000000000000000000002'' ''Density of ice'' False)
   \<and> updatedAt (exampleVideo ''000000000000000000000002'' ''Density of ice'' False) = 0
   \<and> fst (deleteVideo exampleEngine 1000 exampleStore ''000000000000000000000002'')
       = Ok200 ''Video deleted successfully''
   \<and> findById ''000000000000000000000002''
        (snd (deleteVideo exampleEngine 1000 exampleStore ''000000000000000000000002''))
       = Some ((exampleVideo ''000000000000000000000002'' ''Density of ice'' False)
                 \<lparr> updatedAt := 1000 \<rparr>)
   \<and> snd (deleteVideo exampleEngine 1000 exampleStore ''000000000000000000000002'')
       \<noteq> exampleStore"
  by (simp add: deleteVideo_def exampleEngine_def exampleStore_def exampleVideo_def
      findById_def isHexDigit_def hexDigitValue_def)

text \<open>
  Claim C10, amended: deleting an existing entry reports success, sets its \<open>isActive\<close>
  to false and its \<open>updatedAt\<close> to the time of the delete, and leaves every other
  entry alone. Deleting an entry whose \<open>isActive\<close> is already false still reports
  success (not NotFound) and changes nothing but that entry's \<open>updatedAt\<close>; so after a
  second delete the entry is as the first delete left it, \<open>isActive\<close> false, except for
  the stamp.
\<close>

theorem delete_idempotent:
  assumes "castObjectId e i" and "findById i s = Some v"
  shows "fst (deleteVideo e t s i) = Ok200 ''Video deleted successfully''
       \<and> findById i (snd (deleteVideo e t s i))
           = Some (v\<lparr> isActive := False, updatedAt := t \<rparr>)
       \<and> (\<forall>j. j \<noteq> i \<longrightarrow> findById j (snd (deleteVideo e t s i)) = findById j s)
       \<and> (\<not> isActive v \<longrightarrow>
            deleteVideo e t s i
              = (Ok200 ''Video deleted successfully'',
                 updateById i (\<lambda>v. v\<lparr> updatedAt := t \<rparr>) s))
       \<and> deleteVideo e t' (snd (deleteVideo e t s i)) i
           = (Ok200 ''Video deleted successfully'',
              updateById i (\<lambda>v. v\<lparr> updatedAt := t' \<rparr>) (snd (deleteVideo e t s i)))
       \<and> findById i (snd (deleteVideo e t' (snd (deleteVideo e t s i)) i))
           = Some (v\<lparr> isActive := False, updatedAt := t' \<rparr>)"
proof -
  let ?f = "\<lambda>t (v :: video). v\<lparr> isActive := False, updatedAt := t \<rparr>"
  let ?g = "\<lambda>t (v :: video). v\<lparr> updatedAt := t \<rparr>"
  let ?s1 = "updateById i (?f t) s"
  have d1: "deleteVideo e t s i = (Ok200 ''Video deleted successfully'', ?s1)"
    using assms by (simp add: deleteVideo_def)
  have f1: "findById i ?s1 = Some (?f t v)"
    using assms(2) by (simp add: findById_updateById)
  have other: "\<And>j. j \<noteq> i \<Longrightarrow> findById j ?s1 = findById j s"
    by (rule findById_updateById_other) simp_all
  have same: "\<not> isActive v \<Longrightarrow> ?s1 = updateById i (?g t) s"
    using assms(2) by (intro updateById_agree [where v = v]) simp_all
  have again: "updateById i (?f t') ?s1 = updateById i (?g t') ?s1"
    using f1 by (rule updateById_agree) simp
  have d2: "deleteVideo e t' ?s1 i
              = (Ok200 ''Video deleted successfully'', updateById i (?g t') ?s1)"
    using assms(1) f1 again by (simp add: deleteVideo_def)
  have "findById i (updateById i (?g t') ?s1) = map_option (?g t') (findById i ?s1)"
    by (rule findById_updateById) simp
  then have f2: "findById i (updateById i (?g t') ?s1) = Some (?f t' v)"
    unfolding f1 by simp
  show ?thesis
    using f1 other same d2 f2 by (simp add: d1)
qed

text \<open>
  Claim C10, amended, on the example store: the first entry, deleted at time 1000 and
  again at time 2000.
\<close>

theorem delete_idempotent_witness:
  "castObjectId exampleEngine ''000000000000000000000001''
   \<and> findById ''000000000000000000000001'' exampleStore
       = Some (exampleVideo ''000000000000000000000001'' ''Density of water'' True)
   \<and> fst (deleteVideo exampleEngine 1000 exampleStore ''000000000000000000000001'')
       = Ok200 ''Video deleted successfully''
   \<and> findById ''000000000000000000000001''
        (snd (deleteVideo exampleEngine 1000 exampleStore ''000000000000000000000001''))
       = Some ((exampleVideo ''000000000000000000000001'' ''Density of water'' False)
                 \<lparr> updatedAt := 1000 \<rparr>)
   \<and> fst (deleteVideo exampleEngine 2000
        (snd (deleteVideo exampleEngine 1000 exampleStore ''000000000000000000000001''))
        ''000000000000000000000001'')
       = Ok200 ''Video deleted successfully''
   \<and> findById ''000000000000000000000001''
        (snd (deleteVideo exampleEngine 2000
           (snd (deleteVideo exampleEngine 1000 exampleStore ''000000000000000000000001''))
           ''000000000000000000000001''))
       = Some ((exampleVideo ''000000000000000000000001'' ''Density of water'' False)
                 \<lparr> updatedAt := 2000 \<rparr>)"
proof -
  let ?i = "''000000000000000000000001''"
  have c: "castObjectId exampleEngine ?i"
    by (simp add: exampleEngine_def isHexDigit_def hexDigitValue_def)
  have f: "findById ?i exampleStore = Some (exampleVideo ?i ''Density of water'' True)"
    by (simp add: exampleStore_def exampleVideo_def findById_def)
  have u: "\<And>t. (exampleVideo ?i ''Density of water'' True)\<lparr> isActive := False, updatedAt := t \<rparr>
             = (exampleVideo ?i ''Density of water'' False)\<lparr> updatedAt := t \<rparr>"
    by (simp add: exampleVideo_def)
  note t = delete_idempotent [OF c f, of 1000 2000]
  have a1: "fst (deleteVideo exampleEngine 1000 exampleStore ?i)
              = Ok200 ''Video deleted successfully''"
    using t [THEN conjunct1] .
  have a2: "findById ?i (snd (deleteVideo exampleEngine 1000 exampleStore ?i))
              = Some ((exampleVideo ?i ''Density of water'' False)\<lparr> updatedAt := 1000 \<rparr>)"
    using t [THEN conjunct2, THEN conjunct1] unfolding u .
  have "deleteVideo exampleEngine 2000 (snd (deleteVideo exampleEngine 1000 exampleStore ?i)) ?i
          = (Ok200 ''Video deleted successfully'',
             updateById ?i (\<lambda>v. v\<lparr> updatedAt := 2000 \<rparr>)
               (snd (deleteVideo exampleEngine 1000 exampleStore ?i)))"
    using t [THEN conjunct2, THEN conjunct2, THEN conjunct2, THEN conjunct2, THEN conjunct1] .
  then have a3: "fst (deleteVideo exampleEngine 2000
                   (snd (deleteVideo exampleEngine 1000 exampleStore ?i)) ?i)
              = Ok200 ''Video deleted successfully''"
    by (simp only: fst_conv)
  have a4: "findById ?i (snd (deleteVideo exampleEngine 2000
                   (snd (deleteVideo exampleEngine 1000 exampleStore ?i)) ?i))
              = Some ((exampleVideo ?i ''Density of water'' False)\<lparr> updatedAt := 2000 \<rparr>)"
    using t [THEN conjunct2, THEN conjunct2, THEN conjunct2, THEN conjunct2, THEN conjunct2]
    unfolding u .
  from c f a1 a2 a3 a4 show ?thesis
    by (intro conjI)
qed

end
